theory Spec2Isabelle
  imports Complex_Main "HOL-Library.Sublist"
begin

section \<open>Python values and effects used by yt2t/main.py\<close>

text \<open>
  The program is a pipeline of calls into external libraries (pytube, moviepy, pydub, wave,
  whisper, youtube_transcript_api). The libraries are not part of the repository, so every
  library call is a field of an environment record \<open>env\<close>: a function from the call's
  arguments to its outcome (an exception or a value). The theorems below hold for every
  environment. The code of \<^verbatim>\<open>main.py\<close> itself is translated statement by statement.

  Python's \<^verbatim>\<open>str\<close> is modelled by \<open>string\<close>. A library object (a stream, a clip, an
  audio segment, a model, a transcript) is a value of the type parameter \<open>'obj\<close>.
\<close>

subsection \<open>Exceptions\<close>

text \<open>
  Every exception of the model is an instance of Python's \<^verbatim>\<open>Exception\<close>: the two classes
  that \<^verbatim>\<open>get_youtube_transcript\<close> names, the builtin ones that the code raises itself or
  provokes (\<^verbatim>\<open>ValueError\<close>, \<^verbatim>\<open>AttributeError\<close> on \<^verbatim>\<open>None\<close>, \<^verbatim>\<open>UnboundLocalError\<close>,
  \<^verbatim>\<open>FileNotFoundError\<close>, \<^verbatim>\<open>ZeroDivisionError\<close>, \<^verbatim>\<open>TypeError\<close>,
  \<^verbatim>\<open>UnicodeEncodeError\<close> from \<^verbatim>\<open>print\<close>), and \<open>LibraryError\<close> for any
  other exception class a library raises. \<open>exn_str e\<close> is \<^verbatim>\<open>str(e)\<close>, the text an f-string
  prints for \<^verbatim>\<open>{e}\<close>. Conditions that are not instances of \<^verbatim>\<open>Exception\<close>
  (\<^verbatim>\<open>KeyboardInterrupt\<close>, \<^verbatim>\<open>SystemExit\<close>) are outside the model.
\<close>

datatype exn_class =
    TranscriptsDisabled
  | NoTranscriptFound
  | ValueError
  | AttributeError
  | UnboundLocalError
  | FileNotFoundError
  | ZeroDivisionError
  | TypeError
  | UnicodeEncodeError
  | LibraryError

datatype exn = Exn (exn_class: exn_class) (exn_str: string)

subsection \<open>The world: filesystem, standard output, call trace\<close>

text \<open>
  \<open>files\<close> is the set of paths that name an existing regular file (\<^verbatim>\<open>os.path.isfile\<close>).
  \<open>stdout\<close> holds one entry per \<^verbatim>\<open>print\<close> call, oldest first. \<open>trace\<close> records, oldest
  first, each entry into one of the five pipeline stages together with the argument it was
  called with; it is a ghost field that changes nothing the program computes.
\<close>

datatype stage = Download | Mp3ToWav | Mp4ToWav | Transcription | TranscriptFetch

record world =
  files :: "string set"
  stdout :: "string list"
  trace :: "(stage \<times> string) list"

subsection \<open>Computations that may raise\<close>

text \<open>
  A Python statement sequence is a function from the world to an outcome and a new world;
  \<open>Inl e\<close> is an exception \<open>e\<close> in flight, \<open>Inr x\<close> a normal result.
\<close>

type_synonym 'a py = "world \<Rightarrow> (exn + 'a) \<times> world"

definition py_return :: "'a \<Rightarrow> 'a py" where
  "py_return x = (\<lambda>w. (Inr x, w))"

definition py_raise :: "exn \<Rightarrow> 'a py" where
  "py_raise e = (\<lambda>w. (Inl e, w))"

definition py_bind :: "'a py \<Rightarrow> ('a \<Rightarrow> 'b py) \<Rightarrow> 'b py" where
  "py_bind m f = (\<lambda>w. case m w of (Inl e, w') \<Rightarrow> (Inl e, w') | (Inr x, w') \<Rightarrow> f x w')"

text \<open>\<^verbatim>\<open>try: m  except Exception as e: h e\<close>. An exception raised by the handler escapes.\<close>

definition py_try :: "'a py \<Rightarrow> (exn \<Rightarrow> 'a py) \<Rightarrow> 'a py" where
  "py_try m h = (\<lambda>w. case m w of (Inl e, w') \<Rightarrow> h e w' | (Inr x, w') \<Rightarrow> (Inr x, w'))"

definition py_print :: "string \<Rightarrow> unit py" where
  "py_print s = (\<lambda>w. (Inr (), w\<lparr>stdout := stdout w @ [s]\<rparr>))"

definition py_enter :: "stage \<Rightarrow> string \<Rightarrow> unit py" where
  "py_enter st arg = (\<lambda>w. (Inr (), w\<lparr>trace := trace w @ [(st, arg)]\<rparr>))"

text \<open>
  A library call whose outcome \<open>r\<close> the environment gives: \<open>Inl msg\<close> is an exception of some
  library class with \<^verbatim>\<open>str(e) = msg\<close>. \<open>lib_fs\<close> is a call that reads the filesystem.
\<close>

definition lib :: "string + 'a \<Rightarrow> 'a py" where
  "lib r = (case r of Inl msg \<Rightarrow> py_raise (Exn LibraryError msg) | Inr x \<Rightarrow> py_return x)"

definition lib_fs :: "(string set \<Rightarrow> string + 'a) \<Rightarrow> 'a py" where
  "lib_fs f = (\<lambda>w. lib (f (files w)) w)"

text \<open>A call of the captions library, which raises exceptions of any class.\<close>

definition lib_exn :: "exn + 'a \<Rightarrow> 'a py" where
  "lib_exn r = (case r of Inl e \<Rightarrow> py_raise e | Inr x \<Rightarrow> py_return x)"

text \<open>A successful write creates the file; \<^verbatim>\<open>os.remove\<close> deletes it or raises.\<close>

definition fs_create :: "string \<Rightarrow> unit py" where
  "fs_create p = (\<lambda>w. (Inr (), w\<lparr>files := insert p (files w)\<rparr>))"

definition os_remove :: "string \<Rightarrow> unit py" where
  "os_remove p = (\<lambda>w. if p \<in> files w then (Inr (), w\<lparr>files := files w - {p}\<rparr>)
                       else (Inl (Exn FileNotFoundError p), w))"

definition os_path_isfile :: "world \<Rightarrow> string \<Rightarrow> bool" where
  "os_path_isfile w p \<longleftrightarrow> p \<in> files w"

subsection \<open>String methods\<close>

definition endswith :: "string \<Rightarrow> string \<Rightarrow> bool" where
  "endswith s suf \<longleftrightarrow> suffix suf s"

text \<open>
  \<^verbatim>\<open>s.replace(old, new)\<close>: every non-overlapping occurrence of \<open>old\<close>, found from the left,
  is replaced. For an empty \<open>old\<close> Python puts \<open>new\<close> before every character and at the end.
\<close>

fun replace_from :: "string \<Rightarrow> string \<Rightarrow> string \<Rightarrow> string" where
  "replace_from old new [] = []"
| "replace_from old new (c # cs) =
     (if prefix old (c # cs) then new @ replace_from old new (drop (length old - 1) cs)
      else c # replace_from old new cs)"

definition py_replace :: "string \<Rightarrow> string \<Rightarrow> string \<Rightarrow> string" where
  "py_replace s old new =
     (if old = [] then new @ concat (map (\<lambda>c. c # new) s) else replace_from old new s)"

text \<open>
  \<^verbatim>\<open>str(e)\<close> for the \<^verbatim>\<open>AttributeError\<close> of an attribute access on \<^verbatim>\<open>None\<close>;
  \<open>CHR 0x27\<close> is the apostrophe.
\<close>

definition no_attribute :: "string \<Rightarrow> string" where
  "no_attribute a =
     CHR 0x27 # ''NoneType'' @ CHR 0x27 # '' object has no attribute '' @ CHR 0x27 # a @ [CHR 0x27]"

text \<open>\<^verbatim>\<open>sep.join(xs)\<close>.\<close>

fun py_join :: "string \<Rightarrow> string list \<Rightarrow> string" where
  "py_join sep [] = []"
| "py_join sep [x] = x"
| "py_join sep (x # y # ys) = x @ sep @ py_join sep (y # ys)"

section \<open>The environment: the external libraries\<close>

text \<open>One caption entry of a fetched transcript; the code reads only \<^verbatim>\<open>entry["text"]\<close>.\<close>

record caption =
  entry_text :: string
  entry_start :: rat
  entry_duration :: rat

record 'obj env =
  yt_video_id :: "string \<Rightarrow> string + string"
    \<comment> \<open>\<^verbatim>\<open>YouTube(url).video_id\<close>\<close>
  yt_first_audio_stream :: "string \<Rightarrow> string + 'obj option"
    \<comment> \<open>\<^verbatim>\<open>yt.streams.filter(only_audio=True).first()\<close>, which may be \<^verbatim>\<open>None\<close>\<close>
  stream_filesize :: "'obj \<Rightarrow> string + nat"
  stream_download :: "'obj \<Rightarrow> string \<Rightarrow> string + string"
    \<comment> \<open>\<^verbatim>\<open>audio_stream.download(skip_existing=False, filename=...)\<close>: the path written\<close>
  AudioFileClip :: "string set \<Rightarrow> string \<Rightarrow> string + 'obj"
  write_audiofile :: "'obj \<Rightarrow> string \<Rightarrow> string + unit"
  from_mp3 :: "string set \<Rightarrow> string \<Rightarrow> string + 'obj"
  export :: "'obj \<Rightarrow> string \<Rightarrow> string + unit"
  VideoFileClip :: "string set \<Rightarrow> string \<Rightarrow> string + 'obj"
  video_audio :: "'obj \<Rightarrow> 'obj option"
    \<comment> \<open>\<^verbatim>\<open>video.audio\<close>, \<^verbatim>\<open>None\<close> for a video without an audio track\<close>
  wave_open :: "string set \<Rightarrow> string \<Rightarrow> string + nat \<times> nat"
    \<comment> \<open>\<^verbatim>\<open>wave.open(path, "rb")\<close>: the header's frame count and frame rate\<close>
  getenv_WHISPER_MODEL :: "string option"
  cuda_is_available :: bool
  load_model :: "string \<Rightarrow> string \<Rightarrow> string + 'obj"
  transcribe :: "'obj \<Rightarrow> string set \<Rightarrow> string \<Rightarrow> string \<Rightarrow> string + string"
    \<comment> \<open>\<^verbatim>\<open>model.transcribe(audio_path, language=language, verbose=False)["text"]\<close>\<close>
  list_transcripts :: "string \<Rightarrow> exn + 'obj"
  find_transcript :: "'obj \<Rightarrow> string list \<Rightarrow> exn + 'obj"
  fetch :: "'obj \<Rightarrow> exn + caption list"

section \<open>The functions of main.py\<close>

text \<open>
  The progress bars (\<^verbatim>\<open>tqdm\<close>, \<^verbatim>\<open>on_progress_callback\<close>) write to standard error and return
  nothing the program uses; they are left out.
\<close>

subsection \<open>Normalization: convert\_mp3\_to\_wav, convert\_mp4\_to\_wav\<close>

definition convert_mp3_to_wav :: "'obj env \<Rightarrow> string \<Rightarrow> string option py" where
  "convert_mp3_to_wav env mp3_path =
     py_bind (py_enter Mp3ToWav mp3_path) (\<lambda>_.
     py_try
       (py_bind (lib_fs (\<lambda>fs. from_mp3 env fs mp3_path)) (\<lambda>audio.
        let wav_path = py_replace mp3_path ''.mp3'' ''.wav'' in
        py_bind (lib (export env audio wav_path)) (\<lambda>_.
        py_bind (fs_create wav_path) (\<lambda>_.
        py_return (Some wav_path)))))
       (\<lambda>e. py_bind (py_print (''Error converting MP3 to WAV: '' @ exn_str e)) (\<lambda>_.
            py_return None)))"

definition convert_mp4_to_wav :: "'obj env \<Rightarrow> string \<Rightarrow> string option py" where
  "convert_mp4_to_wav env mp4_path =
     py_bind (py_enter Mp4ToWav mp4_path) (\<lambda>_.
     py_try
       (py_bind (lib_fs (\<lambda>fs. VideoFileClip env fs mp4_path)) (\<lambda>video.
        let audio = video_audio env video;
            wav_path = py_replace mp4_path ''.mp4'' ''.wav'' in
        py_bind (case audio of
                   None \<Rightarrow> py_raise (Exn AttributeError
                     (no_attribute ''write_audiofile''))
                 | Some a \<Rightarrow> lib (write_audiofile env a wav_path)) (\<lambda>_.
        py_bind (fs_create wav_path) (\<lambda>_.
        py_return (Some wav_path)))))
       (\<lambda>e. py_bind (py_print (''Error converting MP4 to WAV: '' @ exn_str e)) (\<lambda>_.
            py_return None)))"

subsection \<open>Transcription: get\_audio\_length, convert\_audio\_to\_text\<close>

text \<open>
  \<^verbatim>\<open>audio_path\<close> is \<^verbatim>\<open>None\<close> when a nested conversion failed; \<^verbatim>\<open>wave.open(None, "rb")\<close>
  then calls \<^verbatim>\<open>None.read\<close> and raises \<^verbatim>\<open>AttributeError\<close>.
\<close>

definition get_audio_length :: "'obj env \<Rightarrow> string option \<Rightarrow> rat py" where
  "get_audio_length env audio_path =
     (case audio_path of
        None \<Rightarrow> py_raise (Exn AttributeError
                  (no_attribute ''read''))
      | Some p \<Rightarrow>
          py_bind (lib_fs (\<lambda>fs. wave_open env fs p)) (\<lambda>(frames, rate).
          if rate = 0 then py_raise (Exn ZeroDivisionError ''float division by zero'')
          else py_return (of_nat frames / of_nat rate)))"

definition convert_audio_to_text :: "'obj env \<Rightarrow> string \<Rightarrow> string \<Rightarrow> string option py" where
  "convert_audio_to_text env audio_path language =
     py_bind (py_enter Transcription audio_path) (\<lambda>_.
     py_try
       (py_bind
          (if \<not> endswith audio_path ''.wav'' then
             (if endswith audio_path ''.mp3'' then convert_mp3_to_wav env audio_path
              else if endswith audio_path ''.mp4'' then convert_mp4_to_wav env audio_path
              else py_raise (Exn ValueError
                     ''Unsupported file format. Only MP3 and MP4 are supported.''))
           else py_return (Some audio_path)) (\<lambda>audio_path.
        py_bind (get_audio_length env audio_path) (\<lambda>audio_length.
        let model_name = (case getenv_WHISPER_MODEL env of None \<Rightarrow> ''large-v3'' | Some v \<Rightarrow> v) in
        py_bind (lib (load_model env model_name
                        (if cuda_is_available env then ''cuda'' else ''cpu''))) (\<lambda>model.
        py_bind (case audio_path of
                   None \<Rightarrow> py_raise (Exn TypeError ''expected a path, got NoneType'')
                 | Some p \<Rightarrow> lib_fs (\<lambda>fs. transcribe env model fs p language)) (\<lambda>result_text.
        py_return (Some result_text))))))
       (\<lambda>e. py_bind (py_print (''Error transcribing audio: '' @ exn_str e)) (\<lambda>_.
            py_return None)))"

subsection \<open>Acquisition: download\_youtube\_audio\_as\_mp3, get\_youtube\_transcript\<close>

definition download_youtube_audio_as_mp3 :: "'obj env \<Rightarrow> string \<Rightarrow> string option py" where
  "download_youtube_audio_as_mp3 env url =
     py_bind (py_enter Download url) (\<lambda>_.
     py_try
       (py_bind (lib (yt_video_id env url)) (\<lambda>video_id.
        py_bind (lib (yt_first_audio_stream env url)) (\<lambda>audio_stream.
        case audio_stream of
          None \<Rightarrow> py_raise (Exn AttributeError (no_attribute ''filesize''))
        | Some strm \<Rightarrow>
            py_bind (lib (stream_filesize env strm)) (\<lambda>total.
            py_bind (lib (stream_download env strm (video_id @ ''.mp4''))) (\<lambda>temp_file.
            py_bind (fs_create temp_file) (\<lambda>_.
            let output_path = video_id @ ''.mp3'' in
            py_bind (lib_fs (\<lambda>fs. AudioFileClip env fs temp_file)) (\<lambda>audio_clip.
            py_bind (lib (write_audiofile env audio_clip output_path)) (\<lambda>_.
            py_bind (fs_create output_path) (\<lambda>_.
            py_bind (os_remove temp_file) (\<lambda>_.
            py_return (Some output_path)))))))))))
       (\<lambda>e. py_bind (py_print (''Error downloading YouTube video: '' @ exn_str e)) (\<lambda>_.
            py_return None)))"

text \<open>
  \<^verbatim>\<open>try: x = m; rest  except ...: h\<close> where the handler reads the local variable \<open>x\<close>:
  the handler gets \<open>None\<close> when \<open>m\<close> raised, so that \<open>x\<close> is still unbound, and \<open>Some x\<close>
  when a later statement raised.
\<close>

definition py_try_var :: "'a py \<Rightarrow> ('a \<Rightarrow> 'b py) \<Rightarrow> ('a option \<Rightarrow> exn \<Rightarrow> 'b py) \<Rightarrow> 'b py" where
  "py_try_var m rest h =
     (\<lambda>w. case m w of (Inl e, w') \<Rightarrow> h None e w' | (Inr x, w') \<Rightarrow> py_try (rest x) (h (Some x)) w')"

text \<open>
  The first \<^verbatim>\<open>except\<close> clause prints \<^verbatim>\<open>video_id\<close>; reading it unbound raises
  \<^verbatim>\<open>UnboundLocalError\<close> out of the handler. \<^verbatim>\<open>YouTube(url)\<close> is pytube's and raises none
  of the two captions classes, which is why \<open>yt_video_id\<close> goes through \<open>lib\<close>.
\<close>

definition get_youtube_transcript :: "'obj env \<Rightarrow> string \<Rightarrow> string \<Rightarrow> string option py" where
  "get_youtube_transcript env url language =
     py_bind (py_enter TranscriptFetch url) (\<lambda>_.
     py_try_var (lib (yt_video_id env url))
       (\<lambda>video_id.
          py_bind (lib_exn (list_transcripts env video_id)) (\<lambda>transcript_list.
          py_bind (lib_exn (find_transcript env transcript_list [language])) (\<lambda>transcript.
          py_bind (py_print (''Retrieving transcript for video: '' @ video_id)) (\<lambda>_.
          py_bind (lib_exn (fetch env transcript)) (\<lambda>entries.
          py_return (Some (py_join '' '' (map entry_text entries))))))))
       (\<lambda>video_id e.
          if exn_class e = TranscriptsDisabled \<or> exn_class e = NoTranscriptFound then
            (case video_id of
               None \<Rightarrow> py_raise (Exn UnboundLocalError
                         ''local variable video_id referenced before assignment'')
             | Some v \<Rightarrow> py_bind (py_print (''No transcript available for video: '' @ v)) (\<lambda>_.
                         py_return None))
          else py_bind (py_print (''Error retrieving transcript: '' @ exn_str e)) (\<lambda>_.
               py_return None)))"

subsection \<open>Input classifier: is\_valid\_youtube\_url\<close>

text \<open>
  The regular expressions that the pattern of \<^verbatim>\<open>is_valid_youtube_url\<close> is made of, with
  the meaning Python's \<^verbatim>\<open>re\<close> gives them without flags: \<open>Dot\<close> is any character but the
  newline, \<open>Bol\<close> holds at position 0, \<open>Eol\<close> holds at the end of the string and just before
  a newline that ends the string.

  \<open>rmatch k r (n, s)\<close> lists every state that a match of \<open>r\<close> can reach from position \<open>n\<close>
  with \<open>s\<close> still to read, greedy alternatives first; \<open>k\<close> bounds the repetitions of a
  \<open>Plus\<close>. \<^verbatim>\<open>re.match\<close> finds a match at the start of the string if and only if the list
  is not empty; one more repetition than the string has characters reaches every state.
\<close>

datatype regex =
    Chr char
  | Dot
  | Seq regex regex
  | Alt regex regex
  | Opt regex
  | Plus regex
  | Bol
  | Eol
  | Eps

fun rmatch :: "nat \<Rightarrow> regex \<Rightarrow> nat \<times> string \<Rightarrow> (nat \<times> string) list" where
  "rmatch k (Chr c) (n, s) =
     (case s of [] \<Rightarrow> [] | x # xs \<Rightarrow> if x = c then [(Suc n, xs)] else [])"
| "rmatch k Dot (n, s) =
     (case s of [] \<Rightarrow> [] | x # xs \<Rightarrow> if x \<noteq> CHR 0x0A then [(Suc n, xs)] else [])"
| "rmatch k (Seq r1 r2) st = concat (map (rmatch k r2) (rmatch k r1 st))"
| "rmatch k (Alt r1 r2) st = rmatch k r1 st @ rmatch k r2 st"
| "rmatch k (Opt r) st = rmatch k r st @ [st]"
| "rmatch 0 (Plus r) st = []"
| "rmatch (Suc k) (Plus r) st =
     (let once = rmatch (Suc k) r st in concat (map (rmatch k (Plus r)) once) @ once)"
| "rmatch k Bol (n, s) = (if n = 0 then [(n, s)] else [])"
| "rmatch k Eol (n, s) = (if s = [] \<or> s = [CHR 0x0A] then [(n, s)] else [])"
| "rmatch k Eps st = [st]"

definition re_match :: "regex \<Rightarrow> string \<Rightarrow> bool" where
  "re_match r s \<longleftrightarrow> rmatch (Suc (length s)) r (0, s) \<noteq> []"

text \<open>A run of literal characters.\<close>

fun lits :: "string \<Rightarrow> regex" where
  "lits [] = Eps"
| "lits (c # cs) = Seq (Chr c) (lits cs)"

text \<open>\<^verbatim>\<open>^(https?\:\/\/)?(www\.youtube\.com|youtu\.?be)\/.+$\<close>\<close>

definition youtube_regex :: regex where
  "youtube_regex =
     Seq Bol
    (Seq (Opt (Seq (lits ''http'') (Seq (Opt (Chr CHR ''s'')) (lits ''://''))))
    (Seq (Alt (lits ''www.youtube.com'')
              (Seq (lits ''youtu'') (Seq (Opt (Chr CHR ''.'')) (lits ''be''))))
    (Seq (Chr CHR ''/'')
    (Seq (Plus Dot)
         Eol))))"

definition is_valid_youtube_url :: "string \<Rightarrow> bool" where
  "is_valid_youtube_url url \<longleftrightarrow> re_match youtube_regex url"

subsection \<open>Orchestrator: main\<close>

text \<open>The parsed command line: \<^verbatim>\<open>args.source\<close>, \<^verbatim>\<open>args.language\<close>, \<^verbatim>\<open>args.ignore_transcript\<close>.\<close>

record args =
  source :: string
  language :: string
  ignore_transcript :: bool

text \<open>
  \<open>finish\<close> is the last statement, \<^verbatim>\<open>if text is not None: print(text)\<close>; a branch that ends
  in a bare \<^verbatim>\<open>return\<close> does not reach it. \<open>transcribe_file\<close> is the call of line 167.
\<close>

definition main :: "'obj env \<Rightarrow> args \<Rightarrow> unit py" where
  "main env args =
     (let finish = (\<lambda>text. case text of None \<Rightarrow> py_return () | Some t \<Rightarrow> py_print t);
          transcribe_file = (\<lambda>audio_file.
            py_bind (convert_audio_to_text env audio_file (language args)) finish)
      in (\<lambda>w.
        (if os_path_isfile w (source args) then
           (if endswith (source args) ''.mp4'' then
              py_bind (convert_mp4_to_wav env (source args)) (\<lambda>audio_file.
              case audio_file of
                None \<Rightarrow> py_print ''Failed to convert MP4 to WAV.''
              | Some f \<Rightarrow> transcribe_file f)
            else transcribe_file (source args))
         else if is_valid_youtube_url (source args) then
           py_bind (if ignore_transcript args then py_return None
                    else get_youtube_transcript env (source args) (language args)) (\<lambda>text.
           case text of
             None \<Rightarrow>
               py_bind (download_youtube_audio_as_mp3 env (source args)) (\<lambda>audio_file.
               case audio_file of
                 None \<Rightarrow> py_print ''Failed to download or convert YouTube video to audio.''
               | Some f \<Rightarrow> py_bind (convert_audio_to_text env f (language args)) finish)
           | Some t \<Rightarrow> finish (Some t))
         else
           py_print
             ''Invalid source. Please provide a valid YouTube URL or local audio file path.'')
        w))"


section \<open>The functions of main.py on a console that can refuse a line\<close>

text \<open>
  \<^verbatim>\<open>print(s)\<close> encodes \<open>s\<close> for the console and raises \<^verbatim>\<open>UnicodeEncodeError\<close> when the
  console's encoding has no code for one of its characters. \<open>py_print\<close> above is the print
  of a console that encodes every string. Here the console is a parameter: \<open>enc s\<close> tells
  whether it can encode \<open>s\<close>. No \<^verbatim>\<open>print\<close> of \<^verbatim>\<open>main.py\<close> stands inside a \<^verbatim>\<open>try\<close> of its own:
  those of the handlers and of \<open>main\<close> raise into the caller.

  Each \<open>_block\<close> function is the statement list of a \<^verbatim>\<open>try\<close> block, each \<open>_on\<close> function
  the whole function with its prints on the console \<open>enc\<close>. On a console that encodes
  every string the \<open>_on\<close> functions are the functions of the previous section (lemmas
  \<open>_on_total\<close> below).
\<close>

definition py_print_on :: "(string \<Rightarrow> bool) \<Rightarrow> string \<Rightarrow> unit py" where
  "py_print_on enc s =
     (\<lambda>w. if enc s then (Inr (), w\<lparr>stdout := stdout w @ [s]\<rparr>)
          else (Inl (Exn UnicodeEncodeError ''codec cannot encode character''), w))"












section \<open>The spec's URL pattern\<close>

text \<open>
  The pattern as the specification words it: an optional \<^verbatim>\<open>http://\<close> or \<^verbatim>\<open>https://\<close>, then
  \<^verbatim>\<open>www.youtube.com\<close> or \<^verbatim>\<open>youtu.be\<close>, then \<^verbatim>\<open>/\<close> and at least one further character.
  It is compared with \<open>is_valid_youtube_url\<close> below.
\<close>

definition spec_url_pattern :: "string \<Rightarrow> bool" where
  "spec_url_pattern url \<longleftrightarrow>
     list_ex (\<lambda>scheme. list_ex (\<lambda>host.
        prefix (scheme @ host @ ''/'') url \<and> length (scheme @ host @ ''/'') < length url)
        [''www.youtube.com'', ''youtu.be''])
      ['''', ''http://'', ''https://'']"

section \<open>Two environments\<close>

text \<open>
  \<open>sample_env\<close>: every library call succeeds on a file that exists; the video has English
  captions only. \<open>offline_env\<close>: no network and no decoder, every library call fails.
\<close>

definition sample_env :: "nat env" where
  "sample_env =
     \<lparr>yt_video_id = (\<lambda>url. Inr ''dQw4w9WgXcQ''),
      yt_first_audio_stream = (\<lambda>url. Inr (Some 1)),
      stream_filesize = (\<lambda>strm. Inr 3400000),
      stream_download = (\<lambda>strm filename. Inr (''/home/user/'' @ filename)),
      AudioFileClip = (\<lambda>fs p. if p \<in> fs then Inr 2 else Inl ''file not found''),
      write_audiofile = (\<lambda>clip p. Inr ()),
      from_mp3 = (\<lambda>fs p. if p \<in> fs then Inr 3 else Inl ''file not found''),
      export = (\<lambda>audio p. Inr ()),
      VideoFileClip = (\<lambda>fs p. if p \<in> fs then Inr 4 else Inl ''file not found''),
      video_audio = (\<lambda>video. Some 5),
      wave_open = (\<lambda>fs p. if p \<in> fs then Inr (480000, 16000) else Inl ''file not found''),
      getenv_WHISPER_MODEL = None,
      cuda_is_available = False,
      load_model = (\<lambda>name device. Inr 6),
      transcribe = (\<lambda>model fs p lang. if p \<in> fs then Inr ''never gonna give you up''
                                        else Inl ''file not found''),
      list_transcripts = (\<lambda>video_id. Inr 7),
      find_transcript = (\<lambda>transcript_list langs.
         if langs = [''en''] then Inr 8 else Inl (Exn NoTranscriptFound ''no transcript'')),
      fetch = (\<lambda>transcript. Inr
         [\<lparr>entry_text = ''never gonna'', entry_start = 0, entry_duration = 2\<rparr>,
          \<lparr>entry_text = ''give you up'', entry_start = 2, entry_duration = 2\<rparr>])\<rparr>"

definition offline_env :: "nat env" where
  "offline_env =
     \<lparr>yt_video_id = (\<lambda>url. Inr ''dQw4w9WgXcQ''),
      yt_first_audio_stream = (\<lambda>url. Inl ''network is unreachable''),
      stream_filesize = (\<lambda>strm. Inl ''network is unreachable''),
      stream_download = (\<lambda>strm filename. Inl ''network is unreachable''),
      AudioFileClip = (\<lambda>fs p. Inl ''ffmpeg not found''),
      write_audiofile = (\<lambda>clip p. Inl ''ffmpeg not found''),
      from_mp3 = (\<lambda>fs p. Inl ''ffmpeg not found''),
      export = (\<lambda>audio p. Inl ''ffmpeg not found''),
      VideoFileClip = (\<lambda>fs p. Inl ''ffmpeg not found''),
      video_audio = (\<lambda>video. None),
      wave_open = (\<lambda>fs p. Inl ''file does not start with RIFF id''),
      getenv_WHISPER_MODEL = Some ''tiny'',
      cuda_is_available = False,
      load_model = (\<lambda>name device. Inl ''network is unreachable''),
      transcribe = (\<lambda>model fs p lang. Inl ''out of memory''),
      list_transcripts = (\<lambda>video_id. Inl (Exn LibraryError ''network is unreachable'')),
      find_transcript = (\<lambda>transcript_list langs. Inl (Exn NoTranscriptFound ''no transcript'')),
      fetch = (\<lambda>transcript. Inl (Exn LibraryError ''network is unreachable''))\<rparr>"



section \<open>Relations between the worlds before and after a computation\<close>

text \<open>
  \<open>step_rel R m\<close>: running \<open>m\<close> takes every world to one related to it by \<open>R\<close>. The two
  relations used are \<open>files_grow\<close> (no file is deleted) and \<open>trace_adds S\<close> (the trace is
  extended, by entries of \<open>S\<close> only).
\<close>

definition step_rel :: "(world \<Rightarrow> world \<Rightarrow> bool) \<Rightarrow> 'a py \<Rightarrow> bool" where
  "step_rel R m \<longleftrightarrow> (\<forall>w. R w (snd (m w)))"

definition files_grow :: "world \<Rightarrow> world \<Rightarrow> bool" where
  "files_grow w w' \<longleftrightarrow> files w \<subseteq> files w'"

definition trace_adds :: "(stage \<times> string) set \<Rightarrow> world \<Rightarrow> world \<Rightarrow> bool" where
  "trace_adds S w w' \<longleftrightarrow> (\<exists>evs. trace w' = trace w @ evs \<and> set evs \<subseteq> S)"

section \<open>The strings a regular expression reads\<close>

text \<open>
  \<open>reads k r L\<close>: from any state, \<open>r\<close> (with \<open>k\<close> repetitions allowed) reaches exactly the
  states that lie behind a prefix in \<open>L\<close> of the text still to read. It holds of the
  expressions without \<open>Bol\<close>, \<open>Eol\<close> and \<open>Plus\<close>.
\<close>

definition reads :: "nat \<Rightarrow> regex \<Rightarrow> string set \<Rightarrow> bool" where
  "reads k r L \<longleftrightarrow>
     (\<forall>n s. set (rmatch k r (n, s)) = {(n + length u, t) | u t. s = u @ t \<and> u \<in> L})"

section \<open>Properties\<close>

subsection \<open>Unfolding the effects\<close>

lemmas py_defs = py_return_def py_raise_def py_bind_def py_try_def py_print_def py_enter_def
  lib_def lib_fs_def lib_exn_def fs_create_def os_remove_def py_try_var_def

lemma py_bind_enter:
  "py_bind (py_enter st a) f w = f () (w\<lparr>trace := trace w @ [(st, a)]\<rparr>)"
  by (simp add: py_bind_def py_enter_def)

lemma catch_all:
  "py_try m (\<lambda>e. py_bind (py_print (f e)) (\<lambda>_. py_return None)) w =
     (case m w of
        (Inl e, w') \<Rightarrow> (Inr None, w'\<lparr>stdout := stdout w' @ [f e]\<rparr>)
      | (Inr x, w') \<Rightarrow> (Inr x, w'))"
  by (simp add: py_try_def py_bind_def py_print_def py_return_def split: prod.splits sum.splits)

lemma py_bind_InrE:
  assumes "py_bind m f w = (Inr y, w')"
  obtains x w1 where "m w = (Inr x, w1)" and "f x w1 = (Inr y, w')"
  using assms by (auto simp: py_bind_def split: prod.splits sum.splits)

lemma reflp_files_grow: "reflp files_grow"
  by (simp add: reflp_def files_grow_def)

lemma transp_files_grow: "transp files_grow"
  by (auto simp: transp_def files_grow_def)

lemma reflp_trace_adds: "reflp (trace_adds S)"
  by (simp add: reflp_def trace_adds_def)

lemma transp_trace_adds: "transp (trace_adds S)"
proof (rule transpI)
  fix a b c assume "trace_adds S a b" "trace_adds S b c"
  then obtain e1 e2 where "trace b = trace a @ e1" "set e1 \<subseteq> S" "trace c = trace b @ e2" "set e2 \<subseteq> S"
    by (auto simp: trace_adds_def)
  then have "trace c = trace a @ (e1 @ e2) \<and> set (e1 @ e2) \<subseteq> S" by simp
  then show "trace_adds S a c" unfolding trace_adds_def by blast
qed

lemma step_rel_return: "reflp R \<Longrightarrow> step_rel R (py_return x)"
  by (simp add: step_rel_def py_return_def reflp_def)

lemma step_rel_raise: "reflp R \<Longrightarrow> step_rel R (py_raise e)"
  by (simp add: step_rel_def py_raise_def reflp_def)

lemma step_rel_lib: "reflp R \<Longrightarrow> step_rel R (lib r)"
  by (cases r) (simp_all add: lib_def step_rel_return step_rel_raise)

lemma step_rel_lib_exn: "reflp R \<Longrightarrow> step_rel R (lib_exn r)"
  by (cases r) (simp_all add: lib_exn_def step_rel_return step_rel_raise)

lemma step_rel_lib_fs: "reflp R \<Longrightarrow> step_rel R (lib_fs f)"
  by (auto simp: step_rel_def lib_fs_def lib_def py_return_def py_raise_def reflp_def
      split: sum.splits)

lemma step_rel_bind:
  assumes "transp R" and "step_rel R m" and "\<And>x. step_rel R (f x)"
  shows "step_rel R (py_bind m f)"
  unfolding step_rel_def
proof
  fix w
  show "R w (snd (py_bind m f w))"
  proof (cases "m w")
    case (Pair r w1)
    have a: "R w w1" using assms(2) Pair by (auto simp: step_rel_def dest: spec[of _ w])
    show ?thesis
    proof (cases r)
      case (Inl e)
      then show ?thesis using a Pair by (simp add: py_bind_def)
    next
      case (Inr x)
      have "R w1 (snd (f x w1))" using assms(3)[of x] by (simp add: step_rel_def)
      with a have "R w (snd (f x w1))" using assms(1) by (blast dest: transpD)
      then show ?thesis using Pair Inr by (simp add: py_bind_def)
    qed
  qed
qed

lemma step_rel_try:
  assumes "transp R" and "step_rel R m" and "\<And>e. step_rel R (h e)"
  shows "step_rel R (py_try m h)"
  unfolding step_rel_def
proof
  fix w
  show "R w (snd (py_try m h w))"
  proof (cases "m w")
    case (Pair r w1)
    have a: "R w w1" using assms(2) Pair by (auto simp: step_rel_def dest: spec[of _ w])
    show ?thesis
    proof (cases r)
      case (Inr x)
      then show ?thesis using a Pair by (simp add: py_try_def)
    next
      case (Inl e)
      have "R w1 (snd (h e w1))" using assms(3)[of e] by (simp add: step_rel_def)
      with a have "R w (snd (h e w1))" using assms(1) by (blast dest: transpD)
      then show ?thesis using Pair Inl by (simp add: py_try_def)
    qed
  qed
qed

lemma step_rel_try_var:
  assumes "transp R" and "step_rel R m" and "\<And>x. step_rel R (f x)"
    and "\<And>v e. step_rel R (h v e)"
  shows "step_rel R (py_try_var m f h)"
  unfolding step_rel_def
proof
  fix w
  show "R w (snd (py_try_var m f h w))"
  proof (cases "m w")
    case (Pair r w1)
    have a: "R w w1" using assms(2) Pair by (auto simp: step_rel_def dest: spec[of _ w])
    show ?thesis
    proof (cases r)
      case (Inr x)
      have "step_rel R (py_try (f x) (h (Some x)))"
        using assms by (intro step_rel_try)
      then have "R w1 (snd (py_try (f x) (h (Some x)) w1))" by (simp add: step_rel_def)
      with a have "R w (snd (py_try (f x) (h (Some x)) w1))" using assms(1) by (blast dest: transpD)
      then show ?thesis using Pair Inr by (simp add: py_try_var_def)
    next
      case (Inl e)
      have "R w1 (snd (h None e w1))" using assms(4)[of None e] by (simp add: step_rel_def)
      with a have "R w (snd (h None e w1))" using assms(1) by (blast dest: transpD)
      then show ?thesis using Pair Inl by (simp add: py_try_var_def)
    qed
  qed
qed

lemma step_rel_if: "step_rel R a \<Longrightarrow> step_rel R b \<Longrightarrow> step_rel R (if c then a else b)"
  by simp

lemma step_rel_option:
  "step_rel R a \<Longrightarrow> (\<And>y. step_rel R (b y)) \<Longrightarrow> step_rel R (case x of None \<Rightarrow> a | Some y \<Rightarrow> b y)"
  by (cases x) simp_all

lemma step_rel_prod: "(\<And>a b. step_rel R (f a b)) \<Longrightarrow> step_rel R (case p of (a, b) \<Rightarrow> f a b)"
  by (cases p) simp

lemmas step_rel_intros = step_rel_return step_rel_raise step_rel_lib step_rel_lib_exn
  step_rel_lib_fs step_rel_bind step_rel_try step_rel_try_var step_rel_if step_rel_option
  step_rel_prod

lemma files_grow_print: "step_rel files_grow (py_print s)"
  by (simp add: step_rel_def files_grow_def py_print_def)

lemma files_grow_enter: "step_rel files_grow (py_enter st a)"
  by (simp add: step_rel_def files_grow_def py_enter_def)

lemma files_grow_create: "step_rel files_grow (fs_create p)"
  by (auto simp add: step_rel_def files_grow_def fs_create_def)

lemmas files_grow_intros = step_rel_intros files_grow_print files_grow_enter files_grow_create
  reflp_files_grow transp_files_grow

lemma trace_adds_print: "step_rel (trace_adds S) (py_print s)"
  by (simp add: step_rel_def trace_adds_def py_print_def)

lemma trace_adds_create: "step_rel (trace_adds S) (fs_create p)"
  by (simp add: step_rel_def trace_adds_def fs_create_def)

lemma trace_adds_remove: "step_rel (trace_adds S) (os_remove p)"
  by (simp add: step_rel_def trace_adds_def os_remove_def)

lemma trace_adds_enter: "(st, a) \<in> S \<Longrightarrow> step_rel (trace_adds S) (py_enter st a)"
  by (simp add: step_rel_def trace_adds_def py_enter_def)

lemmas trace_adds_intros = step_rel_intros trace_adds_print trace_adds_create trace_adds_remove
  trace_adds_enter reflp_trace_adds transp_trace_adds

lemma convert_mp3_to_wav_files: "step_rel files_grow (convert_mp3_to_wav env p)"
  unfolding convert_mp3_to_wav_def Let_def by (intro files_grow_intros)

lemma convert_mp4_to_wav_files: "step_rel files_grow (convert_mp4_to_wav env p)"
  unfolding convert_mp4_to_wav_def Let_def by (intro files_grow_intros)

lemma get_audio_length_files: "step_rel files_grow (get_audio_length env p)"
  unfolding get_audio_length_def Let_def by (intro files_grow_intros)

lemma convert_audio_to_text_files: "step_rel files_grow (convert_audio_to_text env p lang)"
  unfolding convert_audio_to_text_def Let_def
  by (intro files_grow_intros convert_mp3_to_wav_files convert_mp4_to_wav_files
      get_audio_length_files)

lemma get_youtube_transcript_files: "step_rel files_grow (get_youtube_transcript env p lang)"
  unfolding get_youtube_transcript_def Let_def by (intro files_grow_intros)

lemma convert_mp3_to_wav_adds: "(Mp3ToWav, p) \<in> S \<Longrightarrow> step_rel (trace_adds S) (convert_mp3_to_wav env p)"
  unfolding convert_mp3_to_wav_def Let_def by (intro trace_adds_intros)

lemma convert_mp4_to_wav_adds: "(Mp4ToWav, p) \<in> S \<Longrightarrow> step_rel (trace_adds S) (convert_mp4_to_wav env p)"
  unfolding convert_mp4_to_wav_def Let_def by (intro trace_adds_intros)

lemma get_audio_length_adds: "step_rel (trace_adds S) (get_audio_length env p)"
  unfolding get_audio_length_def Let_def by (intro trace_adds_intros)

lemma convert_audio_to_text_adds:
  assumes "{(Transcription, p), (Mp3ToWav, p), (Mp4ToWav, p)} \<subseteq> S"
  shows "step_rel (trace_adds S) (convert_audio_to_text env p lang)"
  unfolding convert_audio_to_text_def Let_def
  using assms
  by (intro trace_adds_intros convert_mp3_to_wav_adds convert_mp4_to_wav_adds
      get_audio_length_adds) auto

lemma catch_all_returns:
  "\<exists>r. fst (py_try m (\<lambda>e. py_bind (py_print (f e)) (\<lambda>_. py_return None)) w) = Inr r"
  by (simp add: catch_all split: prod.splits sum.splits)

lemma convert_mp3_to_wav_returns: "\<exists>r. fst (convert_mp3_to_wav env p w) = Inr r"
  unfolding convert_mp3_to_wav_def py_bind_enter by (rule catch_all_returns)

lemma convert_mp4_to_wav_returns: "\<exists>r. fst (convert_mp4_to_wav env p w) = Inr r"
  unfolding convert_mp4_to_wav_def py_bind_enter by (rule catch_all_returns)


lemma download_returns: "\<exists>r. fst (download_youtube_audio_as_mp3 env url w) = Inr r"
  unfolding download_youtube_audio_as_mp3_def py_bind_enter by (rule catch_all_returns)

lemma get_youtube_transcript_returns: "\<exists>r. fst (get_youtube_transcript env url l w) = Inr r"
  by (simp add: get_youtube_transcript_def py_defs split: sum.splits prod.splits option.splits)

subsection \<open>Transcription stage: unsupported extensions\<close>

text \<open>
  C7. For an audio path that ends in none of \<^verbatim>\<open>.wav\<close>, \<^verbatim>\<open>.mp3\<close>, \<^verbatim>\<open>.mp4\<close>, the transcription
  stage returns \<^verbatim>\<open>None\<close> normally (\<open>Inr None\<close>: no exception reaches the caller), after
  printing one message; it calls no library and touches no file.
\<close>

theorem convert_audio_to_text_unsupported:
  assumes "\<not> endswith audio_path ''.wav''" and "\<not> endswith audio_path ''.mp3''"
    and "\<not> endswith audio_path ''.mp4''"
  shows "convert_audio_to_text env audio_path lang w =
           (Inr None,
            w\<lparr>stdout := stdout w @
                 [''Error transcribing audio: Unsupported file format. Only MP3 and MP4 are supported.''],
              trace := trace w @ [(Transcription, audio_path)]\<rparr>)"
  using assms by (simp add: convert_audio_to_text_def py_defs)

theorem convert_audio_to_text_unsupported_witness:
  "convert_audio_to_text sample_env ''notes.txt'' ''ja'' \<lparr>files = {''notes.txt''}, stdout = [], trace = []\<rparr> =
     (Inr None,
      \<lparr>files = {''notes.txt''},
       stdout = [''Error transcribing audio: Unsupported file format. Only MP3 and MP4 are supported.''],
       trace = [(Transcription, ''notes.txt'')]\<rparr>)"
  using convert_audio_to_text_unsupported
    [of "''notes.txt''" sample_env "''ja''" "\<lparr>files = {''notes.txt''}, stdout = [], trace = []\<rparr>"]
  by (simp add: endswith_def suffix_to_prefix)

subsection \<open>Transcript available\<close>

lemma url_ok: "is_valid_youtube_url ''youtu.be/dQw4w9WgXcQ''"
  by (simp add: is_valid_youtube_url_def re_match_def youtube_regex_def)

lemma get_youtube_transcript_ok:
  assumes "yt_video_id env url = Inr vid" and "list_transcripts env vid = Inr tlist"
    and "find_transcript env tlist [lang] = Inr tr" and "fetch env tr = Inr entries"
  shows "get_youtube_transcript env url lang w =
           (Inr (Some (py_join '' '' (map entry_text entries))),
            w\<lparr>stdout := stdout w @ [''Retrieving transcript for video: '' @ vid],
              trace := trace w @ [(TranscriptFetch, url)]\<rparr>)"
  using assms by (simp add: get_youtube_transcript_def py_defs)



subsection \<open>Transcription stage: a failed nested conversion\<close>

lemma mp3_not_wav: "endswith p ''.mp3'' \<Longrightarrow> \<not> endswith p ''.wav''"
  by (auto simp: endswith_def suffix_def)

lemma mp4_not_wav: "endswith p ''.mp4'' \<Longrightarrow> \<not> endswith p ''.wav''"
  by (auto simp: endswith_def suffix_def)

lemma mp4_not_mp3: "endswith p ''.mp4'' \<Longrightarrow> \<not> endswith p ''.mp3''"
  by (auto simp: endswith_def suffix_def)

text \<open>
  C10. When the transcription stage gets an \<^verbatim>\<open>.mp3\<close> or \<^verbatim>\<open>.mp4\<close> path and the nested waveform
  conversion returns \<^verbatim>\<open>None\<close>, the stage returns \<^verbatim>\<open>None\<close> normally: \<^verbatim>\<open>get_audio_length(None)\<close>
  raises \<^verbatim>\<open>AttributeError\<close>, the stage's own handler catches it and prints its message.
\<close>

theorem convert_audio_to_text_nested_failure:
  assumes "(endswith p ''.mp3'' \<and>
              convert_mp3_to_wav env p (w\<lparr>trace := trace w @ [(Transcription, p)]\<rparr>) = (Inr None, w')) \<or>
           (endswith p ''.mp4'' \<and>
              convert_mp4_to_wav env p (w\<lparr>trace := trace w @ [(Transcription, p)]\<rparr>) = (Inr None, w'))"
  shows "convert_audio_to_text env p lang w =
           (Inr None, w'\<lparr>stdout := stdout w' @ [''Error transcribing audio: '' @ no_attribute ''read'']\<rparr>)"
  using assms mp3_not_wav[of p] mp4_not_wav[of p] mp4_not_mp3[of p]
  by (auto simp add: convert_audio_to_text_def get_audio_length_def py_defs)

theorem convert_audio_to_text_nested_failure_witness:
  "convert_audio_to_text offline_env ''talk.mp3'' ''ja'' \<lparr>files = {''talk.mp3''}, stdout = [], trace = []\<rparr> =
     (Inr None,
      \<lparr>files = {''talk.mp3''},
       stdout = [''Error converting MP3 to WAV: ffmpeg not found'',
                 ''Error transcribing audio: '' @ no_attribute ''read''],
       trace = [(Transcription, ''talk.mp3''), (Mp3ToWav, ''talk.mp3'')]\<rparr>)"
  using convert_audio_to_text_nested_failure
    [where p = "''talk.mp3''" and env = offline_env and lang = "''ja''"
       and w = "\<lparr>files = {''talk.mp3''}, stdout = [], trace = []\<rparr>"
       and w' = "\<lparr>files = {''talk.mp3''},
                 stdout = [''Error converting MP3 to WAV: ffmpeg not found''],
                 trace = [(Transcription, ''talk.mp3''), (Mp3ToWav, ''talk.mp3'')]\<rparr>"]
  by (simp add: endswith_def suffix_to_prefix convert_mp3_to_wav_def py_defs offline_env_def)

subsection \<open>A transcript without entries\<close>

text \<open>
  C9. For a URL source whose transcript in the requested language exists and has no caption
  entry, the transcript fetch returns the empty string, not \<^verbatim>\<open>None\<close>; \<open>main\<close> prints the
  empty text and enters no other stage: no download, no speech recognition.
\<close>

theorem main_empty_transcript:
  assumes "\<not> os_path_isfile w (source args)" and "is_valid_youtube_url (source args)"
    and "\<not> ignore_transcript args"
    and "yt_video_id env (source args) = Inr vid" and "list_transcripts env vid = Inr tlist"
    and "find_transcript env tlist [language args] = Inr tr" and "fetch env tr = Inr []"
  shows "get_youtube_transcript env (source args) (language args) w =
           (Inr (Some ''''),
            w\<lparr>stdout := stdout w @ [''Retrieving transcript for video: '' @ vid],
              trace := trace w @ [(TranscriptFetch, source args)]\<rparr>) \<and>
         main env args w =
           (Inr (),
            w\<lparr>stdout := stdout w @ [''Retrieving transcript for video: '' @ vid, ''''],
              trace := trace w @ [(TranscriptFetch, source args)]\<rparr>)"
  using assms(1-3) get_youtube_transcript_ok[OF assms(4-7), where w = w]
  by (simp add: main_def Let_def py_bind_def py_print_def py_return_def)

theorem main_empty_transcript_witness:
  "get_youtube_transcript (sample_env\<lparr>fetch := \<lambda>tr. Inr []\<rparr>) ''youtu.be/dQw4w9WgXcQ'' ''en''
      \<lparr>files = {}, stdout = [], trace = []\<rparr> =
     (Inr (Some ''''),
      \<lparr>files = {}, stdout = [''Retrieving transcript for video: dQw4w9WgXcQ''],
       trace = [(TranscriptFetch, ''youtu.be/dQw4w9WgXcQ'')]\<rparr>) \<and>
   main (sample_env\<lparr>fetch := \<lambda>tr. Inr []\<rparr>)
      \<lparr>source = ''youtu.be/dQw4w9WgXcQ'', language = ''en'', ignore_transcript = False\<rparr>
      \<lparr>files = {}, stdout = [], trace = []\<rparr> =
     (Inr (),
      \<lparr>files = {}, stdout = [''Retrieving transcript for video: dQw4w9WgXcQ'', ''''],
       trace = [(TranscriptFetch, ''youtu.be/dQw4w9WgXcQ'')]\<rparr>)"
  using main_empty_transcript
    [where w = "\<lparr>files = {}, stdout = [], trace = []\<rparr>"
       and args = "\<lparr>source = ''youtu.be/dQw4w9WgXcQ'', language = ''en'', ignore_transcript = False\<rparr>"
       and env = "sample_env\<lparr>fetch := \<lambda>tr. Inr []\<rparr>" and vid = "''dQw4w9WgXcQ''"
       and tlist = 7 and tr = 8]
    url_ok
  by (simp add: os_path_isfile_def sample_env_def)

subsection \<open>The stages each function enters\<close>

lemma trace_adds_empty: "step_rel (trace_adds {}) m \<Longrightarrow> trace (snd (m w)) = trace w"
  by (auto simp: step_rel_def trace_adds_def dest: spec[of _ w])

lemma bind_keeps_trace:
  assumes "\<And>x. step_rel (trace_adds {}) (f x)"
  shows "trace (snd (py_bind m f w)) = trace (snd (m w))"
proof (cases "m w")
  case (Pair r w1)
  show ?thesis
  proof (cases r)
    case (Inl e)
    then show ?thesis using Pair by (simp add: py_bind_def)
  next
    case (Inr x)
    then show ?thesis using Pair trace_adds_empty[OF assms, of x w1] by (simp add: py_bind_def)
  qed
qed

lemma try_keeps_trace:
  assumes "\<And>e. step_rel (trace_adds {}) (h e)"
  shows "trace (snd (py_try m h w)) = trace (snd (m w))"
proof (cases "m w")
  case (Pair r w1)
  show ?thesis
  proof (cases r)
    case (Inr x)
    then show ?thesis using Pair by (simp add: py_try_def)
  next
    case (Inl e)
    then show ?thesis using Pair trace_adds_empty[OF assms, of e w1] by (simp add: py_try_def)
  qed
qed

lemma convert_mp3_to_wav_trace:
  "trace (snd (convert_mp3_to_wav env p w)) = trace w @ [(Mp3ToWav, p)]"
  unfolding convert_mp3_to_wav_def py_bind_enter Let_def
  by (subst try_keeps_trace, intro trace_adds_intros, subst trace_adds_empty, intro trace_adds_intros, simp)


lemma convert_mp4_to_wav_trace:
  "trace (snd (convert_mp4_to_wav env p w)) = trace w @ [(Mp4ToWav, p)]"
  unfolding convert_mp4_to_wav_def py_bind_enter Let_def
  by (subst try_keeps_trace, intro trace_adds_intros, subst trace_adds_empty, intro trace_adds_intros, simp)

lemma download_trace:
  "trace (snd (download_youtube_audio_as_mp3 env url w)) = trace w @ [(Download, url)]"
  unfolding download_youtube_audio_as_mp3_def py_bind_enter Let_def
  by (subst try_keeps_trace, intro trace_adds_intros, subst trace_adds_empty, intro trace_adds_intros, simp)

lemma get_youtube_transcript_trace:
  "trace (snd (get_youtube_transcript env url lang w)) = trace w @ [(TranscriptFetch, url)]"
  unfolding get_youtube_transcript_def py_bind_enter
  by (subst trace_adds_empty, intro trace_adds_intros, simp)

lemma convert_audio_to_text_trace:
  "trace (snd (convert_audio_to_text env p lang w)) =
     trace w @ (Transcription, p) #
       (if endswith p ''.wav'' then []
        else if endswith p ''.mp3'' then [(Mp3ToWav, p)]
        else if endswith p ''.mp4'' then [(Mp4ToWav, p)] else [])"
  unfolding convert_audio_to_text_def py_bind_enter Let_def
  apply (subst try_keeps_trace, intro trace_adds_intros)
  apply (subst bind_keeps_trace, intro trace_adds_intros get_audio_length_adds)
  apply (simp add: convert_mp3_to_wav_trace convert_mp4_to_wav_trace py_return_def py_raise_def)
  done

lemma convert_audio_to_text_stages:
  "\<exists>evs. trace (snd (convert_audio_to_text env p lang w)) = trace w @ (Transcription, p) # evs \<and>
         fst ` set evs \<subseteq> {Mp3ToWav, Mp4ToWav}"
  by (auto simp add: convert_audio_to_text_trace)

lemma finish_trace:
  "trace (snd (py_bind m (\<lambda>text. case text of None \<Rightarrow> py_return () | Some t \<Rightarrow> py_print t) w)) =
     trace (snd (m w))"
  by (rule bind_keeps_trace) (intro trace_adds_intros)

subsection \<open>Runs in the sample environment\<close>

lemma sample_transcript_ja:
  "get_youtube_transcript sample_env ''youtu.be/dQw4w9WgXcQ'' ''ja'' \<lparr>files = {}, stdout = [], trace = []\<rparr> =
     (Inr None,
      \<lparr>files = {}, stdout = [''No transcript available for video: dQw4w9WgXcQ''],
       trace = [(TranscriptFetch, ''youtu.be/dQw4w9WgXcQ'')]\<rparr>)"
  by (simp add: get_youtube_transcript_def py_defs sample_env_def)

lemma sample_download:
  "download_youtube_audio_as_mp3 sample_env ''youtu.be/dQw4w9WgXcQ'' \<lparr>files = {}, stdout = sout, trace = tr\<rparr> =
     (Inr (Some ''dQw4w9WgXcQ.mp3''),
      \<lparr>files = {''dQw4w9WgXcQ.mp3''}, stdout = sout,
       trace = tr @ [(Download, ''youtu.be/dQw4w9WgXcQ'')]\<rparr>)"
  by (simp add: download_youtube_audio_as_mp3_def py_defs sample_env_def Let_def insert_Diff_if)

lemma sample_transcribe:
  "convert_audio_to_text sample_env ''dQw4w9WgXcQ.mp3'' lang
      \<lparr>files = {''dQw4w9WgXcQ.mp3''}, stdout = sout, trace = tr\<rparr> =
     (Inr (Some ''never gonna give you up''),
      \<lparr>files = {''dQw4w9WgXcQ.wav'', ''dQw4w9WgXcQ.mp3''}, stdout = sout,
       trace = tr @ [(Transcription, ''dQw4w9WgXcQ.mp3''), (Mp3ToWav, ''dQw4w9WgXcQ.mp3'')]\<rparr>)"
  by (simp add: convert_audio_to_text_def convert_mp3_to_wav_def get_audio_length_def py_defs
        sample_env_def Let_def endswith_def suffix_to_prefix py_replace_def)

subsection \<open>The URL branch of the orchestrator\<close>

lemma audio_path_trace:
  fixes env :: "'obj env"
  defines "A \<equiv> \<lambda>src lang.
     py_bind (download_youtube_audio_as_mp3 env src) (\<lambda>audio_file.
       case audio_file of
         None \<Rightarrow> py_print ''Failed to download or convert YouTube video to audio.''
       | Some f \<Rightarrow> py_bind (convert_audio_to_text env f lang)
                    (\<lambda>text. case text of None \<Rightarrow> py_return () | Some t \<Rightarrow> py_print t))"
  shows "\<exists>evs. trace (snd (A src lang w)) = trace w @ (Download, src) # evs \<and>
           fst ` set evs \<subseteq> {Transcription, Mp3ToWav, Mp4ToWav} \<and>
           (Transcription \<in> fst ` set evs \<longleftrightarrow>
              (\<exists>f. fst (download_youtube_audio_as_mp3 env src w) = Inr (Some f)))"
proof -
  obtain r w1 where d: "download_youtube_audio_as_mp3 env src w = (Inr r, w1)"
    using download_returns[of env src w] by (cases "download_youtube_audio_as_mp3 env src w") auto
  have t1: "trace w1 = trace w @ [(Download, src)]"
    using download_trace[of env src w] d by simp
  show ?thesis
  proof (cases r)
    case None
    then have "A src lang w = py_print ''Failed to download or convert YouTube video to audio.'' w1"
      using d by (simp add: A_def py_bind_def)
    then have "trace (snd (A src lang w)) = trace w @ (Download, src) # []"
      using t1 by (simp add: py_print_def)
    then show ?thesis using d None by (intro exI[of _ "[]"]) simp
  next
    case (Some f)
    then have a: "A src lang w = py_bind (convert_audio_to_text env f lang)
                    (\<lambda>text. case text of None \<Rightarrow> py_return () | Some t \<Rightarrow> py_print t) w1"
      using d by (simp add: A_def py_bind_def)
    obtain evs where e: "trace (snd (convert_audio_to_text env f lang w1)) =
                           trace w1 @ (Transcription, f) # evs"
      and s: "fst ` set evs \<subseteq> {Mp3ToWav, Mp4ToWav}"
      using convert_audio_to_text_stages[of env f lang w1] by blast
    have "trace (snd (A src lang w)) = trace w @ (Download, src) # ((Transcription, f) # evs)"
      using a e t1 by (simp add: finish_trace)
    moreover have "fst ` set ((Transcription, f) # evs) \<subseteq> {Transcription, Mp3ToWav, Mp4ToWav}"
      using s by auto
    moreover have "Transcription \<in> fst ` set ((Transcription, f) # evs)" by simp
    ultimately show ?thesis using d Some by (intro exI[of _ "(Transcription, f) # evs"]) simp
  qed
qed



lemma py_bind_Inr: "m w = (Inr x, w1) \<Longrightarrow> py_bind m f w = f x w1"
  by (simp add: py_bind_def)

lemma main_url:
  assumes "\<not> os_path_isfile w (source args)" and "is_valid_youtube_url (source args)"
  shows "main env args w =
     py_bind (if ignore_transcript args then py_return None
              else get_youtube_transcript env (source args) (language args)) (\<lambda>text.
       case text of
         None \<Rightarrow>
           py_bind (download_youtube_audio_as_mp3 env (source args)) (\<lambda>audio_file.
             case audio_file of
               None \<Rightarrow> py_print ''Failed to download or convert YouTube video to audio.''
             | Some f \<Rightarrow> py_bind (convert_audio_to_text env f (language args))
                          (\<lambda>text. case text of None \<Rightarrow> py_return () | Some t \<Rightarrow> py_print t))
       | Some t \<Rightarrow> py_print t) w"
  using assms by (simp add: main_def Let_def cong: option.case_cong)

text \<open>
  C2. For a source that is not an existing file and matches the URL pattern: the transcript
  fetch is entered if and only if \<^verbatim>\<open>ignore_transcript\<close> is false; the download is entered if
  and only if no transcript text was obtained (the fetch was skipped or returned \<^verbatim>\<open>None\<close>);
  and the transcription stage is entered if and only if, moreover, the download returned a
  path. \<open>evs\<close> are the stage entries of this run, \<open>t\<close> the outcome of the transcript step and
  \<open>d\<close> the outcome of the download in the world the transcript step leaves.
\<close>

theorem main_url_fetch_and_fallback:
  assumes "\<not> os_path_isfile w (source args)" and "is_valid_youtube_url (source args)"
  shows "let t = (if ignore_transcript args then (Inr None, w)
                  else get_youtube_transcript env (source args) (language args) w);
             d = download_youtube_audio_as_mp3 env (source args) (snd t)
         in \<exists>evs. trace (snd (main env args w)) = trace w @ evs \<and>
              (TranscriptFetch \<in> fst ` set evs \<longleftrightarrow> \<not> ignore_transcript args) \<and>
              (Download \<in> fst ` set evs \<longleftrightarrow> fst t = Inr None) \<and>
              (Transcription \<in> fst ` set evs \<longleftrightarrow> fst t = Inr None \<and> (\<exists>f. fst d = Inr (Some f)))"
proof -
  define A where "A =
     py_bind (download_youtube_audio_as_mp3 env (source args)) (\<lambda>audio_file.
       case audio_file of
         None \<Rightarrow> py_print ''Failed to download or convert YouTube video to audio.''
       | Some f \<Rightarrow> py_bind (convert_audio_to_text env f (language args))
                    (\<lambda>text. case text of None \<Rightarrow> py_return () | Some t \<Rightarrow> py_print t))"
  have m: "main env args w =
             py_bind (if ignore_transcript args then py_return None
                      else get_youtube_transcript env (source args) (language args))
               (\<lambda>text. case text of None \<Rightarrow> A | Some t \<Rightarrow> py_print t) w"
    unfolding A_def by (rule main_url[OF assms])
  have a: "\<exists>evs. trace (snd (A w1)) = trace w1 @ (Download, source args) # evs \<and>
             fst ` set evs \<subseteq> {Transcription, Mp3ToWav, Mp4ToWav} \<and>
             (Transcription \<in> fst ` set evs \<longleftrightarrow>
                (\<exists>f. fst (download_youtube_audio_as_mp3 env (source args) w1) = Inr (Some f)))"
    for w1
    unfolding A_def by (rule audio_path_trace)
  show ?thesis
  proof (cases "ignore_transcript args")
    case True
    have "main env args w = A w" using m True by (simp add: py_bind_def py_return_def)
    then obtain evs where e: "trace (snd (main env args w)) = trace w @ (Download, source args) # evs"
      and s: "fst ` set evs \<subseteq> {Transcription, Mp3ToWav, Mp4ToWav}"
      and c: "Transcription \<in> fst ` set evs \<longleftrightarrow>
                (\<exists>f. fst (download_youtube_audio_as_mp3 env (source args) w) = Inr (Some f))"
      using a[of w] by auto
    have "TranscriptFetch \<notin> fst ` set ((Download, source args) # evs)" using s by auto
    moreover have "Download \<in> fst ` set ((Download, source args) # evs)" by simp
    moreover have "Transcription \<in> fst ` set ((Download, source args) # evs) \<longleftrightarrow>
                     (\<exists>f. fst (download_youtube_audio_as_mp3 env (source args) w) = Inr (Some f))"
      using c by simp
    ultimately show ?thesis using True e
      by (simp only: Let_def if_True snd_conv fst_conv) blast
  next
    case False
    let ?g = "get_youtube_transcript env (source args) (language args) w"
    obtain r1 w1 where g: "?g = (Inr r1, w1)"
      using get_youtube_transcript_returns[of env "source args" "language args" w]
      by (cases ?g) auto
    have t1: "trace w1 = trace w @ [(TranscriptFetch, source args)]"
      using get_youtube_transcript_trace[of env "source args" "language args" w] g by simp
    have m': "main env args w = (case r1 of None \<Rightarrow> A | Some t \<Rightarrow> py_print t) w1"
      using m False g by (simp add: py_bind_Inr)
    show ?thesis
    proof (cases r1)
      case (Some tx)
      have "trace (snd (main env args w)) = trace w @ [(TranscriptFetch, source args)]"
        using m' Some t1 by (simp add: py_print_def)
      then show ?thesis using False g Some
        by (simp add: Let_def)
    next
      case None
      have "main env args w = A w1" using m' None by simp
      then obtain evs where e: "trace (snd (main env args w)) = trace w1 @ (Download, source args) # evs"
        and s: "fst ` set evs \<subseteq> {Transcription, Mp3ToWav, Mp4ToWav}"
        and c: "Transcription \<in> fst ` set evs \<longleftrightarrow>
                  (\<exists>f. fst (download_youtube_audio_as_mp3 env (source args) w1) = Inr (Some f))"
        using a[of w1] by auto
      let ?evs = "(TranscriptFetch, source args) # (Download, source args) # evs"
      have "trace (snd (main env args w)) = trace w @ ?evs" using e t1 by simp
      moreover have "TranscriptFetch \<in> fst ` set ?evs" by simp
      moreover have "Download \<in> fst ` set ?evs" by simp
      moreover have "Transcription \<in> fst ` set ?evs \<longleftrightarrow>
                       (\<exists>f. fst (download_youtube_audio_as_mp3 env (source args) w1) = Inr (Some f))"
        using c by simp
      ultimately show ?thesis using False g None
        by (simp only: Let_def if_False snd_conv fst_conv) blast
    qed
  qed
qed

theorem main_url_fetch_and_fallback_witness:
  "\<not> os_path_isfile \<lparr>files = {}, stdout = [], trace = []\<rparr> ''youtu.be/dQw4w9WgXcQ'' \<and>
   is_valid_youtube_url ''youtu.be/dQw4w9WgXcQ'' \<and>
   fst (get_youtube_transcript sample_env ''youtu.be/dQw4w9WgXcQ'' ''ja''
          \<lparr>files = {}, stdout = [], trace = []\<rparr>) = Inr None \<and>
   (\<exists>evs. trace (snd (main sample_env
                 \<lparr>source = ''youtu.be/dQw4w9WgXcQ'', language = ''ja'', ignore_transcript = False\<rparr>
                 \<lparr>files = {}, stdout = [], trace = []\<rparr>)) = evs \<and>
          TranscriptFetch \<in> fst ` set evs \<and> Download \<in> fst ` set evs \<and>
          Transcription \<in> fst ` set evs)"
  using main_url_fetch_and_fallback
    [where env = sample_env and w = "\<lparr>files = {}, stdout = [], trace = []\<rparr>"
       and args = "\<lparr>source = ''youtu.be/dQw4w9WgXcQ'', language = ''ja'', ignore_transcript = False\<rparr>"]
    url_ok sample_transcript_ja
    sample_download[of "[''No transcript available for video: dQw4w9WgXcQ'']"
                       "[(TranscriptFetch, ''youtu.be/dQw4w9WgXcQ'')]"]
  by (simp add: os_path_isfile_def Let_def)

subsection \<open>The local-file branch of the orchestrator\<close>

lemma main_local:
  assumes "os_path_isfile w (source args)"
  shows "main env args w =
     (if endswith (source args) ''.mp4'' then
        py_bind (convert_mp4_to_wav env (source args)) (\<lambda>audio_file.
          case audio_file of
            None \<Rightarrow> py_print ''Failed to convert MP4 to WAV.''
          | Some f \<Rightarrow> py_bind (convert_audio_to_text env f (language args))
                       (\<lambda>text. case text of None \<Rightarrow> py_return () | Some t \<Rightarrow> py_print t))
      else py_bind (convert_audio_to_text env (source args) (language args))
             (\<lambda>text. case text of None \<Rightarrow> py_return () | Some t \<Rightarrow> py_print t)) w"
  using assms by (simp add: main_def Let_def cong: option.case_cong)

lemma main_local_trace:
  assumes "os_path_isfile w (source args)"
  shows "\<exists>evs. trace (snd (main env args w)) =
                 trace w @ (if endswith (source args) ''.mp4'' then (Mp4ToWav, source args)
                            else (Transcription, source args)) # evs \<and>
               fst ` set evs \<subseteq> {Mp4ToWav, Transcription, Mp3ToWav}"
proof (cases "endswith (source args) ''.mp4''")
  case False
  obtain evs where "trace (snd (convert_audio_to_text env (source args) (language args) w)) =
                      trace w @ (Transcription, source args) # evs"
    and "fst ` set evs \<subseteq> {Mp3ToWav, Mp4ToWav}"
    using convert_audio_to_text_stages[of env "source args" "language args" w] by blast
  then show ?thesis using False main_local[OF assms, of env]
    by (intro exI[of _ evs]) (auto simp: finish_trace)
next
  case True
  let ?c = "convert_mp4_to_wav env (source args) w"
  obtain r w1 where c: "?c = (Inr r, w1)"
    using convert_mp4_to_wav_returns[of env "source args" w] by (cases ?c) auto
  have t1: "trace w1 = trace w @ [(Mp4ToWav, source args)]"
    using convert_mp4_to_wav_trace[of env "source args" w] c by simp
  show ?thesis
  proof (cases r)
    case None
    then have "main env args w = py_print ''Failed to convert MP4 to WAV.'' w1"
      using True c main_local[OF assms, of env] by (simp add: py_bind_Inr)
    then show ?thesis using True t1 by (intro exI[of _ "[]"]) (simp add: py_print_def)
  next
    case (Some f)
    then have m: "main env args w = py_bind (convert_audio_to_text env f (language args))
                    (\<lambda>text. case text of None \<Rightarrow> py_return () | Some t \<Rightarrow> py_print t) w1"
      using True c main_local[OF assms, of env] by (simp add: py_bind_Inr)
    obtain evs where e: "trace (snd (convert_audio_to_text env f (language args) w1)) =
                           trace w1 @ (Transcription, f) # evs"
      and s: "fst ` set evs \<subseteq> {Mp3ToWav, Mp4ToWav}"
      using convert_audio_to_text_stages[of env f "language args" w1] by blast
    show ?thesis using True m e s t1
      by (intro exI[of _ "(Transcription, f) # evs"]) (auto simp: finish_trace)
  qed
qed

text \<open>
  C4. When the source names an existing file, \<open>main\<close> runs the local-file branch, whatever
  the URL classifier says of the string: the first stage it enters is the conversion of the
  source (for \<^verbatim>\<open>.mp4\<close>) or its transcription, and it enters neither the transcript fetch
  nor the download. Conversely a run that enters one of those two, the stages of the URL
  branch, has a source that is not an existing file.
\<close>

theorem main_existing_file_is_local:
  "(os_path_isfile w (source args) \<longrightarrow>
      (\<exists>evs. trace (snd (main env args w)) = trace w @ evs \<and> evs \<noteq> [] \<and>
             hd evs = (if endswith (source args) ''.mp4'' then (Mp4ToWav, source args)
                       else (Transcription, source args)) \<and>
             TranscriptFetch \<notin> fst ` set evs \<and> Download \<notin> fst ` set evs)) \<and>
   (\<forall>evs. trace (snd (main env args w)) = trace w @ evs \<and>
           (TranscriptFetch \<in> fst ` set evs \<or> Download \<in> fst ` set evs) \<longrightarrow>
           \<not> os_path_isfile w (source args))"
proof (cases "os_path_isfile w (source args)")
  case False
  then show ?thesis by simp
next
  case True
  obtain evs where e: "trace (snd (main env args w)) =
                         trace w @ (if endswith (source args) ''.mp4'' then (Mp4ToWav, source args)
                                    else (Transcription, source args)) # evs"
    and s: "fst ` set evs \<subseteq> {Mp4ToWav, Transcription, Mp3ToWav}"
    using main_local_trace[OF True, of env] by blast
  let ?h = "if endswith (source args) ''.mp4'' then (Mp4ToWav, source args)
            else (Transcription, source args)"
  have n: "TranscriptFetch \<notin> fst ` set (?h # evs) \<and> Download \<notin> fst ` set (?h # evs)"
    using s by auto
  have "\<exists>evs'. trace (snd (main env args w)) = trace w @ evs' \<and> evs' \<noteq> [] \<and> hd evs' = ?h \<and>
          TranscriptFetch \<notin> fst ` set evs' \<and> Download \<notin> fst ` set evs'"
    using e n by (intro exI[of _ "?h # evs"]) simp
  moreover have "\<not> (TranscriptFetch \<in> fst ` set evs' \<or> Download \<in> fst ` set evs')"
    if "trace (snd (main env args w)) = trace w @ evs'" for evs'
  proof -
    have "evs' = ?h # evs" using that e by simp
    then show ?thesis using n by simp
  qed
  ultimately show ?thesis by blast
qed

theorem main_existing_file_is_local_witness:
  "os_path_isfile \<lparr>files = {''youtu.be/clip.mp3''}, stdout = [], trace = []\<rparr> ''youtu.be/clip.mp3'' \<and>
   is_valid_youtube_url ''youtu.be/clip.mp3'' \<and>
   (\<exists>evs. trace (snd (main sample_env
                 \<lparr>source = ''youtu.be/clip.mp3'', language = ''en'', ignore_transcript = False\<rparr>
                 \<lparr>files = {''youtu.be/clip.mp3''}, stdout = [], trace = []\<rparr>)) = evs \<and>
          hd evs = (Transcription, ''youtu.be/clip.mp3'') \<and>
          TranscriptFetch \<notin> fst ` set evs \<and> Download \<notin> fst ` set evs)"
  using main_existing_file_is_local
    [where env = sample_env and w = "\<lparr>files = {''youtu.be/clip.mp3''}, stdout = [], trace = []\<rparr>"
       and args = "\<lparr>source = ''youtu.be/clip.mp3'', language = ''en'', ignore_transcript = False\<rparr>"]
  by (auto simp add: os_path_isfile_def endswith_def suffix_to_prefix is_valid_youtube_url_def
        re_match_def youtube_regex_def)

subsection \<open>Failures are reported and never raised\<close>

lemma catch_all_None:
  assumes "\<And>x w'. m w = (Inr x, w') \<Longrightarrow> x \<noteq> None"
    and "fst (py_try m (\<lambda>e. py_bind (py_print (f e)) (\<lambda>_. py_return None)) w) = Inr None"
  shows "\<exists>pre e. stdout (snd (py_try m (\<lambda>e. py_bind (py_print (f e)) (\<lambda>_. py_return None)) w)) =
                   pre @ [f e]"
proof (cases "m w")
  case (Pair r w')
  show ?thesis
  proof (cases r)
    case (Inl e)
    then show ?thesis using Pair by (auto simp add: catch_all)
  next
    case (Inr x)
    then show ?thesis using Pair assms by (auto simp add: catch_all)
  qed
qed

lemma convert_mp3_to_wav_None:
  assumes "fst (convert_mp3_to_wav env p w) = Inr None"
  shows "\<exists>pre e. stdout (snd (convert_mp3_to_wav env p w)) =
                   pre @ [''Error converting MP3 to WAV: '' @ exn_str e]"
  using assms unfolding convert_mp3_to_wav_def py_bind_enter
  by (rule catch_all_None[rotated]) (auto elim!: py_bind_InrE simp: py_return_def Let_def)

lemma convert_mp4_to_wav_None:
  assumes "fst (convert_mp4_to_wav env p w) = Inr None"
  shows "\<exists>pre e. stdout (snd (convert_mp4_to_wav env p w)) =
                   pre @ [''Error converting MP4 to WAV: '' @ exn_str e]"
  using assms unfolding convert_mp4_to_wav_def py_bind_enter
  by (rule catch_all_None[rotated]) (auto elim!: py_bind_InrE simp: py_return_def Let_def)

lemma convert_audio_to_text_None:
  assumes "fst (convert_audio_to_text env p lang w) = Inr None"
  shows "\<exists>pre e. stdout (snd (convert_audio_to_text env p lang w)) =
                   pre @ [''Error transcribing audio: '' @ exn_str e]"
  using assms unfolding convert_audio_to_text_def py_bind_enter
  by (rule catch_all_None[rotated]) (auto elim!: py_bind_InrE simp: py_return_def Let_def)

lemma download_None:
  assumes "fst (download_youtube_audio_as_mp3 env url w) = Inr None"
  shows "\<exists>pre e. stdout (snd (download_youtube_audio_as_mp3 env url w)) =
                   pre @ [''Error downloading YouTube video: '' @ exn_str e]"
  using assms unfolding download_youtube_audio_as_mp3_def py_bind_enter
  by (rule catch_all_None[rotated])
     (auto elim!: py_bind_InrE simp: py_return_def py_raise_def Let_def split: option.splits)

lemma get_youtube_transcript_None:
  assumes "fst (get_youtube_transcript env url lang w) = Inr None"
  shows "\<exists>pre msg. stdout (snd (get_youtube_transcript env url lang w)) = pre @ [msg] \<and>
           (prefix ''No transcript available for video: '' msg \<or>
            prefix ''Error retrieving transcript: '' msg)"
  using assms
  by (auto simp add: get_youtube_transcript_def py_defs split: sum.splits prod.splits option.splits if_splits)






lemma offline_transcript:
  "get_youtube_transcript offline_env ''youtu.be/dQw4w9WgXcQ'' ''ja'' \<lparr>files = {}, stdout = [], trace = []\<rparr> =
     (Inr None,
      \<lparr>files = {}, stdout = [''Error retrieving transcript: network is unreachable''],
       trace = [(TranscriptFetch, ''youtu.be/dQw4w9WgXcQ'')]\<rparr>)"
  by (simp add: get_youtube_transcript_def py_defs offline_env_def)

lemma offline_download:
  "download_youtube_audio_as_mp3 offline_env ''youtu.be/dQw4w9WgXcQ'' \<lparr>files = {}, stdout = sout, trace = tr\<rparr> =
     (Inr None,
      \<lparr>files = {}, stdout = sout @ [''Error downloading YouTube video: network is unreachable''],
       trace = tr @ [(Download, ''youtu.be/dQw4w9WgXcQ'')]\<rparr>)"
  by (simp add: download_youtube_audio_as_mp3_def py_defs offline_env_def Let_def)

subsection \<open>Which files a run deletes\<close>

lemma download_files_Some:
  assumes "fst (download_youtube_audio_as_mp3 env url w) = Inr (Some out)"
  shows "\<exists>temp. files (snd (download_youtube_audio_as_mp3 env url w)) =
                  insert out (insert temp (files w)) - {temp}"
  using assms
  by (auto simp add: download_youtube_audio_as_mp3_def py_defs Let_def
        split: sum.splits prod.splits option.splits if_splits)

lemma download_files_None:
  assumes "fst (download_youtube_audio_as_mp3 env url w) = Inr None"
  shows "files w \<subseteq> files (snd (download_youtube_audio_as_mp3 env url w))"
  using assms
  by (auto simp add: download_youtube_audio_as_mp3_def py_defs Let_def
        split: sum.splits prod.splits option.splits if_splits)

lemma files_growD: "step_rel files_grow m \<Longrightarrow> files w \<subseteq> files (snd (m w))"
  by (simp add: step_rel_def files_grow_def)

lemma sample_run_ja:
  "main sample_env
      \<lparr>source = ''youtu.be/dQw4w9WgXcQ'', language = ''ja'', ignore_transcript = False\<rparr>
      \<lparr>files = {}, stdout = [], trace = []\<rparr> =
     (Inr (),
      \<lparr>files = {''dQw4w9WgXcQ.wav'', ''dQw4w9WgXcQ.mp3''},
       stdout = [''No transcript available for video: dQw4w9WgXcQ'', ''never gonna give you up''],
       trace = [(TranscriptFetch, ''youtu.be/dQw4w9WgXcQ''), (Download, ''youtu.be/dQw4w9WgXcQ''),
                (Transcription, ''dQw4w9WgXcQ.mp3''), (Mp3ToWav, ''dQw4w9WgXcQ.mp3'')]\<rparr>)"
  by (simp add: main_url os_path_isfile_def url_ok py_bind_def sample_transcript_ja
        sample_download sample_transcribe py_print_def)


text \<open>
  C6 as stated fails. In the sample environment a run on a URL without captions in the
  requested language downloads \<^verbatim>\<open>dQw4w9WgXcQ.mp3\<close>, the transcription stage converts it to
  \<^verbatim>\<open>dQw4w9WgXcQ.wav\<close>, and when \<open>main\<close> has returned both files exist: the compressed-audio
  intermediate is not deleted. The conversion itself returns the new path and leaves its
  input in place.
\<close>

theorem intermediate_files_counterexample:
  "''dQw4w9WgXcQ.wav'' \<in> files (snd (main sample_env
      \<lparr>source = ''youtu.be/dQw4w9WgXcQ'', language = ''ja'', ignore_transcript = False\<rparr>
      \<lparr>files = {}, stdout = [], trace = []\<rparr>)) \<and>
   ''dQw4w9WgXcQ.mp3'' \<in> files (snd (main sample_env
      \<lparr>source = ''youtu.be/dQw4w9WgXcQ'', language = ''ja'', ignore_transcript = False\<rparr>
      \<lparr>files = {}, stdout = [], trace = []\<rparr>)) \<and>
   trace (snd (main sample_env
      \<lparr>source = ''youtu.be/dQw4w9WgXcQ'', language = ''ja'', ignore_transcript = False\<rparr>
      \<lparr>files = {}, stdout = [], trace = []\<rparr>)) =
     [(TranscriptFetch, ''youtu.be/dQw4w9WgXcQ''), (Download, ''youtu.be/dQw4w9WgXcQ''),
      (Transcription, ''dQw4w9WgXcQ.mp3''), (Mp3ToWav, ''dQw4w9WgXcQ.mp3'')] \<and>
   fst (convert_mp3_to_wav sample_env ''dQw4w9WgXcQ.mp3''
         \<lparr>files = {''dQw4w9WgXcQ.mp3''}, stdout = [], trace = []\<rparr>) = Inr (Some ''dQw4w9WgXcQ.wav'') \<and>
   ''dQw4w9WgXcQ.mp3'' \<in> files (snd (convert_mp3_to_wav sample_env ''dQw4w9WgXcQ.mp3''
         \<lparr>files = {''dQw4w9WgXcQ.mp3''}, stdout = [], trace = []\<rparr>))"
proof -
  have "convert_mp3_to_wav sample_env ''dQw4w9WgXcQ.mp3''
          \<lparr>files = {''dQw4w9WgXcQ.mp3''}, stdout = [], trace = []\<rparr> =
        (Inr (Some ''dQw4w9WgXcQ.wav''),
         \<lparr>files = {''dQw4w9WgXcQ.wav'', ''dQw4w9WgXcQ.mp3''}, stdout = [],
          trace = [(Mp3ToWav, ''dQw4w9WgXcQ.mp3'')]\<rparr>)"
    by (simp add: convert_mp3_to_wav_def py_defs sample_env_def Let_def py_replace_def)
  then show ?thesis by (simp add: sample_run_ja)
qed

text \<open>
  C6, amended. The only file a stage deletes is the downloaded container: a download that
  returns a path \<open>out\<close> leaves the files it found plus \<open>out\<close>, less the container \<open>temp\<close>
  it had written, which it removes after the export of \<open>out\<close>; a download that fails
  removes nothing. The conversions, the transcription stage and the transcript fetch delete
  no file; in particular the path given to the transcription stage still names a file
  when the stage returns.
\<close>

theorem only_the_container_is_deleted:
  "(fst (download_youtube_audio_as_mp3 env url w) = Inr (Some out) \<longrightarrow>
      (\<exists>temp. files (snd (download_youtube_audio_as_mp3 env url w)) =
                insert out (insert temp (files w)) - {temp})) \<and>
   (fst (download_youtube_audio_as_mp3 env url w) = Inr None \<longrightarrow>
      files w \<subseteq> files (snd (download_youtube_audio_as_mp3 env url w))) \<and>
   files w \<subseteq> files (snd (convert_mp3_to_wav env p w)) \<and>
   files w \<subseteq> files (snd (convert_mp4_to_wav env p w)) \<and>
   files w \<subseteq> files (snd (convert_audio_to_text env p lang w)) \<and>
   files w \<subseteq> files (snd (get_youtube_transcript env url lang w)) \<and>
   (p \<in> files w \<longrightarrow> p \<in> files (snd (convert_audio_to_text env p lang w)))"
proof -
  have g: "p \<in> files w \<longrightarrow> p \<in> files (snd (convert_audio_to_text env p lang w))"
    using files_growD[OF convert_audio_to_text_files, of w env p lang] by blast
  show ?thesis
    using impI[OF download_files_Some[of env url w out]] impI[OF download_files_None[of env url w]]
      files_growD[OF convert_mp3_to_wav_files, of w env p]
      files_growD[OF convert_mp4_to_wav_files, of w env p]
      files_growD[OF convert_audio_to_text_files, of w env p lang]
      files_growD[OF get_youtube_transcript_files, of w env url lang] g
    by (intro conjI) assumption+
qed

theorem only_the_container_is_deleted_witness:
  "files (snd (download_youtube_audio_as_mp3 sample_env ''youtu.be/dQw4w9WgXcQ''
                 \<lparr>files = {}, stdout = [], trace = []\<rparr>)) = {''dQw4w9WgXcQ.mp3''} \<and>
   ''dQw4w9WgXcQ.mp3'' \<in> files (snd (convert_audio_to_text sample_env ''dQw4w9WgXcQ.mp3'' ''ja''
                 \<lparr>files = {''dQw4w9WgXcQ.mp3''}, stdout = [], trace = []\<rparr>))"
proof -
  have "''dQw4w9WgXcQ.mp3'' \<in> files \<lparr>files = {''dQw4w9WgXcQ.mp3''}, stdout = [], trace = []\<rparr> \<longrightarrow>
        ''dQw4w9WgXcQ.mp3'' \<in> files (snd (convert_audio_to_text sample_env ''dQw4w9WgXcQ.mp3'' ''ja''
                 \<lparr>files = {''dQw4w9WgXcQ.mp3''}, stdout = [], trace = []\<rparr>))"
    by (rule only_the_container_is_deleted
      [where env = sample_env and url = "''youtu.be/dQw4w9WgXcQ''" and p = "''dQw4w9WgXcQ.mp3''"
         and lang = "''ja''" and out = "''dQw4w9WgXcQ.mp3''"
         and w = "\<lparr>files = {''dQw4w9WgXcQ.mp3''}, stdout = [], trace = []\<rparr>",
       THEN conjunct2, THEN conjunct2, THEN conjunct2, THEN conjunct2, THEN conjunct2,
       THEN conjunct2])
  then show ?thesis by (simp add: sample_download[of "[]" "[]"])
qed

subsection \<open>The path a conversion returns\<close>

text \<open>
  When the extension occurs in the path at its end only, \<^verbatim>\<open>replace\<close> does swap the suffix
  and a successful conversion returns the stem with \<^verbatim>\<open>.wav\<close>.
\<close>

lemma replace_from_suffix_only:
  assumes "ext \<noteq> []"
    and "\<forall>i < length stem. \<not> prefix ext (drop i (stem @ ext))"
  shows "replace_from ext new (stem @ ext) = stem @ new"
  using assms(2)
proof (induction stem)
  case Nil
  obtain c cs where e: "ext = c # cs" using assms(1) by (cases ext) auto
  then show ?case by simp
next
  case (Cons c cs)
  have "\<not> prefix ext (c # cs @ ext)" using Cons.prems by (auto dest: spec[of _ 0])
  moreover have "\<forall>i < length cs. \<not> prefix ext (drop i (cs @ ext))"
  proof (intro allI impI)
    fix i assume "i < length cs"
    then have "\<not> prefix ext (drop (Suc i) ((c # cs) @ ext))"
      using Cons.prems by (auto dest!: spec[of _ "Suc i"])
    then show "\<not> prefix ext (drop i (cs @ ext))" by simp
  qed
  ultimately show ?case using Cons.IH by simp
qed

lemma convert_mp3_to_wav_suffix_only:
  assumes "\<forall>i < length stem. \<not> prefix ''.mp3'' (drop i (stem @ ''.mp3''))"
    and "fst (convert_mp3_to_wav env (stem @ ''.mp3'') w) = Inr (Some wav_path)"
  shows "wav_path = stem @ ''.wav''"
proof -
  have "py_replace (stem @ ''.mp3'') ''.mp3'' ''.wav'' = stem @ ''.wav''"
    using replace_from_suffix_only[OF _ assms(1), of "''.wav''"] by (simp add: py_replace_def)
  then show ?thesis using assms(2)
    by (auto simp add: convert_mp3_to_wav_def py_defs Let_def split: sum.splits prod.splits)
qed

lemma convert_mp4_to_wav_suffix_only:
  assumes "\<forall>i < length stem. \<not> prefix ''.mp4'' (drop i (stem @ ''.mp4''))"
    and "fst (convert_mp4_to_wav env (stem @ ''.mp4'') w) = Inr (Some wav_path)"
  shows "wav_path = stem @ ''.wav''"
proof -
  have "py_replace (stem @ ''.mp4'') ''.mp4'' ''.wav'' = stem @ ''.wav''"
    using replace_from_suffix_only[OF _ assms(1), of "''.wav''"] by (simp add: py_replace_def)
  then show ?thesis using assms(2)
    by (auto simp add: convert_mp4_to_wav_def py_defs Let_def
          split: sum.splits prod.splits option.splits)
qed

text \<open>
  C5 fails where the extension occurs earlier in the path as well: \<^verbatim>\<open>str.replace\<close> rewrites
  every occurrence. Both conversions succeed on the inputs below and return a path that is
  not the input with its suffix replaced (\<^verbatim>\<open>intro.mp3.wav\<close>, \<^verbatim>\<open>clip.mp4.wav\<close>).
\<close>

theorem convert_to_wav_replaces_every_occurrence:
  "convert_mp3_to_wav sample_env ''intro.mp3.mp3''
      \<lparr>files = {''intro.mp3.mp3''}, stdout = [], trace = []\<rparr> =
     (Inr (Some ''intro.wav.wav''),
      \<lparr>files = {''intro.wav.wav'', ''intro.mp3.mp3''}, stdout = [],
       trace = [(Mp3ToWav, ''intro.mp3.mp3'')]\<rparr>) \<and>
   convert_mp4_to_wav sample_env ''clip.mp4.mp4''
      \<lparr>files = {''clip.mp4.mp4''}, stdout = [], trace = []\<rparr> =
     (Inr (Some ''clip.wav.wav''),
      \<lparr>files = {''clip.wav.wav'', ''clip.mp4.mp4''}, stdout = [],
       trace = [(Mp4ToWav, ''clip.mp4.mp4'')]\<rparr>) \<and>
   endswith ''intro.mp3.mp3'' ''.mp3'' \<and> endswith ''clip.mp4.mp4'' ''.mp4''"
  by (simp add: convert_mp3_to_wav_def convert_mp4_to_wav_def py_defs sample_env_def Let_def
        py_replace_def endswith_def suffix_to_prefix)

subsection \<open>Stages on a console that can refuse a line\<close>









lemma catch_on:
  "py_try m (\<lambda>e. py_bind (py_print_on enc (f e)) (\<lambda>_. py_return None)) w =
     (case m w of
        (Inl e, w') \<Rightarrow>
          if enc (f e) then (Inr None, w'\<lparr>stdout := stdout w' @ [f e]\<rparr>)
          else (Inl (Exn UnicodeEncodeError ''codec cannot encode character''), w')
      | (Inr x, w') \<Rightarrow> (Inr x, w'))"
  by (simp add: py_try_def py_bind_def py_print_on_def py_return_def split: prod.splits sum.splits)









subsection \<open>Failures of a try block, and of print\<close>

lemma stage_on_raises:
  assumes "blk w1 = (Inl e, w')"
  shows "py_try blk (\<lambda>e. py_bind (py_print_on enc (f e)) (\<lambda>_. py_return None)) w1 =
           (if enc (f e) then (Inr None, w'\<lparr>stdout := stdout w' @ [f e]\<rparr>)
            else (Inl (Exn UnicodeEncodeError ''codec cannot encode character''), w'))"
  using assms by (simp add: catch_on)

lemma stage_on_returns:
  assumes "blk w1 = (Inr x, w')"
  shows "py_try blk (\<lambda>e. py_bind (py_print_on enc (f e)) (\<lambda>_. py_return None)) w1 = (Inr x, w')"
  using assms by (simp add: catch_on)








subsection \<open>The URL pattern\<close>

lemma readsD:
  "reads k r L \<Longrightarrow>
     (\<exists>y \<in> set (rmatch k r (n, s)). Q y) \<longleftrightarrow> (\<exists>u t. s = u @ t \<and> u \<in> L \<and> Q (n + length u, t))"
  by (auto simp: reads_def)

lemma rmatch_Seq_ex:
  "(\<exists>x \<in> set (rmatch k (Seq a b) st). Q x) \<longleftrightarrow>
     (\<exists>y \<in> set (rmatch k a st). \<exists>x \<in> set (rmatch k b y). Q x)"
  by auto

lemma reads_Chr: "reads k (Chr c) {[c]}"
  by (auto simp: reads_def split: list.splits)

lemma reads_Eps: "reads k Eps {[]}"
  by (auto simp: reads_def)

lemma reads_Seq:
  assumes "reads k a A" and "reads k b B"
  shows "reads k (Seq a b) {x @ y | x y. x \<in> A \<and> y \<in> B}"
  unfolding reads_def
proof (intro allI set_eqI iffI)
  fix n s p
  assume "p \<in> set (rmatch k (Seq a b) (n, s))"
  then obtain y where y: "y \<in> set (rmatch k a (n, s))" and p: "p \<in> set (rmatch k b y)" by auto
  obtain u t where u: "y = (n + length u, t)" "s = u @ t" "u \<in> A"
    using y assms(1) by (auto simp: reads_def)
  obtain v t' where v: "p = (n + length u + length v, t')" "t = v @ t'" "v \<in> B"
    using p u(1) assms(2) by (auto simp: reads_def)
  have "p = (n + length (u @ v), t') \<and> s = (u @ v) @ t' \<and> u @ v \<in> {x @ y | x y. x \<in> A \<and> y \<in> B}"
    using u v by auto
  then show "p \<in> {(n + length u, t) | u t. s = u @ t \<and> u \<in> {x @ y | x y. x \<in> A \<and> y \<in> B}}"
    by blast
next
  fix n s p
  assume "p \<in> {(n + length u, t) | u t. s = u @ t \<and> u \<in> {x @ y | x y. x \<in> A \<and> y \<in> B}}"
  then obtain x y t where p: "p = (n + length (x @ y), t)" "s = (x @ y) @ t" "x \<in> A" "y \<in> B"
    by blast
  have "(n + length x, y @ t) \<in> set (rmatch k a (n, s))"
    using p assms(1) by (auto simp: reads_def)
  moreover have "p \<in> set (rmatch k b (n + length x, y @ t))"
    using p assms(2) by (auto simp: reads_def)
  ultimately show "p \<in> set (rmatch k (Seq a b) (n, s))" by auto
qed

lemma reads_Alt: "reads k a A \<Longrightarrow> reads k b B \<Longrightarrow> reads k (Alt a b) (A \<union> B)"
  by (auto simp: reads_def)

lemma reads_Opt: "reads k a A \<Longrightarrow> reads k (Opt a) (insert [] A)"
  by (auto simp: reads_def)

lemma reads_lits: "reads k (lits w) {w}"
proof (induction w)
  case Nil
  then show ?case using reads_Eps by simp
next
  case (Cons c w)
  have "reads k (Seq (Chr c) (lits w)) {x @ y | x y. x \<in> {[c]} \<and> y \<in> {w}}"
    by (rule reads_Seq[OF reads_Chr Cons])
  then show ?case by simp
qed

lemma reads_scheme:
  "reads k (Opt (Seq (lits ''http'') (Seq (Opt (Chr CHR ''s'')) (lits ''://''))))
     {[], ''http://'', ''https://''}"
proof -
  have "reads k (Opt (Seq (lits ''http'') (Seq (Opt (Chr CHR ''s'')) (lits ''://''))))
          (insert [] {x @ y | x y. x \<in> {''http''} \<and>
             y \<in> {x @ y | x y. x \<in> insert [] {[CHR ''s'']} \<and> y \<in> {''://''}}})"
    by (intro reads_Opt reads_Seq reads_lits reads_Chr)
  moreover have "insert [] {x @ y | x y. x \<in> {''http''} \<and>
             y \<in> {x @ y | x y. x \<in> insert [] {[CHR ''s'']} \<and> y \<in> {''://''}}} =
        {[], ''http://'', ''https://''}"
    by auto
  ultimately show ?thesis by simp
qed

lemma reads_host:
  "reads k (Alt (lits ''www.youtube.com'')
              (Seq (lits ''youtu'') (Seq (Opt (Chr CHR ''.'')) (lits ''be''))))
     {''www.youtube.com'', ''youtu.be'', ''youtube''}"
proof -
  have "reads k (Alt (lits ''www.youtube.com'')
              (Seq (lits ''youtu'') (Seq (Opt (Chr CHR ''.'')) (lits ''be''))))
          ({''www.youtube.com''} \<union> {x @ y | x y. x \<in> {''youtu''} \<and>
             y \<in> {x @ y | x y. x \<in> insert [] {[CHR ''.'']} \<and> y \<in> {''be''}}})"
    by (intro reads_Alt reads_Seq reads_Opt reads_lits reads_Chr)
  moreover have "{''www.youtube.com''} \<union> {x @ y | x y. x \<in> {''youtu''} \<and>
             y \<in> {x @ y | x y. x \<in> insert [] {[CHR ''.'']} \<and> y \<in> {''be''}}} =
        {''www.youtube.com'', ''youtu.be'', ''youtube''}"
    by auto
  ultimately show ?thesis by simp
qed

lemma rmatch_plus_dot:
  "set (rmatch k (Plus Dot) (n, s)) =
     {(n + j, drop j s) | j. 0 < j \<and> j \<le> k \<and> j \<le> length s \<and> CHR 0x0A \<notin> set (take j s)}"
proof (induction k arbitrary: n s)
  case 0
  then show ?case by simp
next
  case (Suc k)
  show ?case
  proof (cases s)
    case Nil
    then show ?thesis by simp
  next
    case (Cons x xs)
    show ?thesis
    proof (cases "x = CHR 0x0A")
      case True
      have "j = 0" if "CHR 0x0A \<notin> set (take j (CHR 0x0A # xs))" for j
        using that by (cases j) auto
      then show ?thesis using Cons True by auto
    next
      case False
      have l: "set (rmatch (Suc k) (Plus Dot) (n, s)) =
                 set (rmatch k (Plus Dot) (Suc n, xs)) \<union> {(Suc n, xs)}"
        using Cons False by simp
      have "set (rmatch k (Plus Dot) (Suc n, xs)) \<union> {(Suc n, xs)} =
              {(n + j, drop j s) | j. 0 < j \<and> j \<le> Suc k \<and> j \<le> length s \<and>
                 CHR 0x0A \<notin> set (take j s)}" (is "?L = ?R")
      proof (intro set_eqI iffI)
        fix p assume "p \<in> ?L"
        then consider "p = (Suc n, xs)"
          | j where "p = (Suc n + j, drop j xs)" "0 < j" "j \<le> k" "j \<le> length xs"
              "CHR 0x0A \<notin> set (take j xs)"
          using Suc.IH[of "Suc n" xs] by auto
        then show "p \<in> ?R"
        proof cases
          case 1
          then have "p = (n + 1, drop 1 s) \<and> (0::nat) < 1 \<and> 1 \<le> Suc k \<and> 1 \<le> length s \<and>
                       CHR 0x0A \<notin> set (take 1 s)"
            using Cons False by simp
          then show ?thesis by blast
        next
          case 2
          then have "p = (n + Suc j, drop (Suc j) s) \<and> 0 < Suc j \<and> Suc j \<le> Suc k \<and>
                       Suc j \<le> length s \<and> CHR 0x0A \<notin> set (take (Suc j) s)"
            using Cons False by simp
          then show ?thesis by blast
        qed
      next
        fix p assume "p \<in> ?R"
        then obtain j where j: "p = (n + j, drop j s)" "0 < j" "j \<le> Suc k" "j \<le> length s"
            "CHR 0x0A \<notin> set (take j s)" by blast
        then obtain i where i: "j = Suc i" by (cases j) auto
        show "p \<in> ?L"
        proof (cases i)
          case 0
          then show ?thesis using j i Cons by simp
        next
          case (Suc i')
          have "p = (Suc n + i, drop i xs) \<and> 0 < i \<and> i \<le> k \<and> i \<le> length xs \<and>
                  CHR 0x0A \<notin> set (take i xs)"
            using j i Suc Cons by auto
          then have "p \<in> set (rmatch k (Plus Dot) (Suc n, xs))"
            using Suc.IH[of "Suc n" xs] by blast
          then show ?thesis by simp
        qed
      qed
      then show ?thesis using l by simp
    qed
  qed
qed


lemma rmatch_plus_dot_ex:
  "(\<exists>y \<in> set (rmatch k (Plus Dot) (n, s)). Q y) \<longleftrightarrow>
     (\<exists>j. 0 < j \<and> j \<le> k \<and> j \<le> length s \<and> CHR 0x0A \<notin> set (take j s) \<and> Q (n + j, drop j s))"
  by (auto simp: rmatch_plus_dot)

lemma rmatch_Bol_ex: "(\<exists>y \<in> set (rmatch k Bol (0, s)). Q y) \<longleftrightarrow> Q (0, s)"
  by simp

lemma rmatch_Eol_ex:
  "(\<exists>y \<in> set (rmatch k Eol (n, s)). Q y) \<longleftrightarrow> (s = [] \<or> s = [CHR 0x0A]) \<and> Q (n, s)"
  by simp

lemma youtube_regex_match:
  "(\<exists>x \<in> set (rmatch k youtube_regex (0, url)). True) \<longleftrightarrow>
     (\<exists>u t. url = u @ t \<and> u \<in> {[], ''http://'', ''https://''} \<and>
        (\<exists>u' t'. t = u' @ t' \<and> u' \<in> {''www.youtube.com'', ''youtu.be'', ''youtube''} \<and>
           (\<exists>u'' t''. t' = u'' @ t'' \<and> u'' \<in> {[CHR ''/'']} \<and>
              (\<exists>j. 0 < j \<and> j \<le> k \<and> j \<le> length t'' \<and> CHR 0x0A \<notin> set (take j t'') \<and>
                   (drop j t'' = [] \<or> drop j t'' = [CHR 0x0A]) \<and> True))))"
  unfolding youtube_regex_def
  by (simp only: rmatch_Seq_ex rmatch_Bol_ex readsD[OF reads_scheme] readsD[OF reads_host]
        readsD[OF reads_Chr] rmatch_plus_dot_ex rmatch_Eol_ex)

text \<open>
  C3 as stated fails in both directions. The pattern of the code has \<^verbatim>\<open>youtu\.?be\<close>, so the
  host \<^verbatim>\<open>youtube\<close> is accepted, which the pattern of the claim does not have; and \<^verbatim>\<open>.+$\<close>
  stops at a newline, so a string of the claim's pattern with a newline inside its path is
  refused.
\<close>

theorem spec_url_pattern_counterexample:
  "is_valid_youtube_url ''youtube/x'' \<and> \<not> spec_url_pattern ''youtube/x'' \<and>
   spec_url_pattern (''youtu.be/a'' @ [CHR 0x0A] @ ''b'') \<and>
   \<not> is_valid_youtube_url (''youtu.be/a'' @ [CHR 0x0A] @ ''b'')"
proof -
  have "is_valid_youtube_url ''youtube/x''"
    by (simp add: is_valid_youtube_url_def re_match_def youtube_regex_def)
  moreover have "\<not> spec_url_pattern ''youtube/x''"
    by (simp add: spec_url_pattern_def)
  moreover have "spec_url_pattern (''youtu.be/a'' @ [CHR 0x0A] @ ''b'')"
    by (simp add: spec_url_pattern_def)
  moreover have "\<not> is_valid_youtube_url (''youtu.be/a'' @ [CHR 0x0A] @ ''b'')"
    by (simp add: is_valid_youtube_url_def re_match_def youtube_regex_def)
  ultimately show ?thesis by blast
qed

text \<open>
  C3, amended. The classifier accepts a string if and only if it is: nothing, \<^verbatim>\<open>http://\<close> or
  \<^verbatim>\<open>https://\<close>; then \<^verbatim>\<open>www.youtube.com\<close>, \<^verbatim>\<open>youtu.be\<close> or \<^verbatim>\<open>youtube\<close>; then \<^verbatim>\<open>/\<close>; then at least
  one character, none of them a newline; then nothing or one final newline. Query
  parameters are part of the characters after the \<^verbatim>\<open>/\<close>, and the scheme may be absent.
\<close>

theorem is_valid_youtube_url_iff:
  "is_valid_youtube_url url \<longleftrightarrow>
     (\<exists>scheme host rest nl.
        url = scheme @ host @ ''/'' @ rest @ nl \<and>
        scheme \<in> {[], ''http://'', ''https://''} \<and>
        host \<in> {''www.youtube.com'', ''youtu.be'', ''youtube''} \<and>
        rest \<noteq> [] \<and> CHR 0x0A \<notin> set rest \<and>
        nl \<in> {[], [CHR 0x0A]})"
proof
  assume "is_valid_youtube_url url"
  then have "\<exists>x \<in> set (rmatch (Suc (length url)) youtube_regex (0, url)). True"
    by (cases "rmatch (Suc (length url)) youtube_regex (0, url)")
       (auto simp: is_valid_youtube_url_def re_match_def)
  then obtain u u' t'' j where
    d: "url = u @ u' @ [CHR ''/''] @ t''" and
    u: "u \<in> {[], ''http://'', ''https://''}" and
    u': "u' \<in> {''www.youtube.com'', ''youtu.be'', ''youtube''}" and
    j: "0 < j" "j \<le> length t''" "CHR 0x0A \<notin> set (take j t'')"
       "drop j t'' = [] \<or> drop j t'' = [CHR 0x0A]"
    unfolding youtube_regex_match by blast
  have "url = u @ u' @ ''/'' @ take j t'' @ drop j t''" using d by simp
  moreover have "take j t'' \<noteq> []" using j(1,2) by auto
  moreover have "drop j t'' \<in> {[], [CHR 0x0A]}" using j(4) by auto
  ultimately show "\<exists>scheme host rest nl.
        url = scheme @ host @ ''/'' @ rest @ nl \<and>
        scheme \<in> {[], ''http://'', ''https://''} \<and>
        host \<in> {''www.youtube.com'', ''youtu.be'', ''youtube''} \<and>
        rest \<noteq> [] \<and> CHR 0x0A \<notin> set rest \<and>
        nl \<in> {[], [CHR 0x0A]}"
    using u u' j(3) by blast
next
  assume "\<exists>scheme host rest nl.
        url = scheme @ host @ ''/'' @ rest @ nl \<and>
        scheme \<in> {[], ''http://'', ''https://''} \<and>
        host \<in> {''www.youtube.com'', ''youtu.be'', ''youtube''} \<and>
        rest \<noteq> [] \<and> CHR 0x0A \<notin> set rest \<and>
        nl \<in> {[], [CHR 0x0A]}"
  then obtain scheme host rest nl where
    d: "url = scheme @ host @ ''/'' @ rest @ nl" and
    s: "scheme \<in> {[], ''http://'', ''https://''}" and
    h: "host \<in> {''www.youtube.com'', ''youtu.be'', ''youtube''}" and
    r: "rest \<noteq> []" "CHR 0x0A \<notin> set rest" and n: "nl \<in> {[], [CHR 0x0A]}"
    by blast
  let ?j = "length rest"
  have "0 < ?j \<and> ?j \<le> Suc (length url) \<and> ?j \<le> length (rest @ nl) \<and>
          CHR 0x0A \<notin> set (take ?j (rest @ nl)) \<and>
          (drop ?j (rest @ nl) = [] \<or> drop ?j (rest @ nl) = [CHR 0x0A]) \<and> True"
    using r n d by auto
  then have "\<exists>j. 0 < j \<and> j \<le> Suc (length url) \<and> j \<le> length (rest @ nl) \<and>
          CHR 0x0A \<notin> set (take j (rest @ nl)) \<and>
          (drop j (rest @ nl) = [] \<or> drop j (rest @ nl) = [CHR 0x0A]) \<and> True"
    by blast
  moreover have "host @ ''/'' @ rest @ nl = host @ ([CHR ''/''] @ (rest @ nl))" by simp
  moreover have "[CHR ''/''] @ (rest @ nl) = [CHR ''/''] @ (rest @ nl) \<and> [CHR ''/''] \<in> {[CHR ''/'']}"
    by simp
  ultimately have "\<exists>x \<in> set (rmatch (Suc (length url)) youtube_regex (0, url)). True"
    unfolding youtube_regex_match using d s h by blast
  then show "is_valid_youtube_url url"
    by (auto simp: is_valid_youtube_url_def re_match_def)
qed

theorem is_valid_youtube_url_iff_witness:
  "is_valid_youtube_url ''https://youtu.be/dQw4w9WgXcQ?t=42'' \<and>
   is_valid_youtube_url ''youtube/x''"
proof
  show "is_valid_youtube_url ''https://youtu.be/dQw4w9WgXcQ?t=42''"
    apply (rule is_valid_youtube_url_iff[THEN iffD2])
    apply (rule exI[of _ "''https://''"])
    apply (rule exI[of _ "''youtu.be''"])
    apply (rule exI[of _ "''dQw4w9WgXcQ?t=42''"])
    apply (rule exI[of _ "[]"])
    apply simp
    done
  show "is_valid_youtube_url ''youtube/x''"
    apply (rule is_valid_youtube_url_iff[THEN iffD2])
    apply (rule exI[of _ "[]"])
    apply (rule exI[of _ "''youtube''"])
    apply (rule exI[of _ "''x''"])
    apply (rule exI[of _ "[]"])
    apply simp
    done
qed

end
